theory Spec2Isabelle
  imports Main
begin

section \<open>The document: nodes, attributes, rendered markup\<close>

text \<open>
  The engine of \<^verbatim>\<open>src/plugin/syringe/index.ts\<close> works on the DOM of a foreign page.
  A node reference is an identity (\<open>nid\<close>); the document is a store from identities to
  node objects, so that two references to one element alias, as they do in the browser.
  A node knows its parent; the children of a node are the nodes that name it as parent.
  Strings are lists of characters, a character standing for one code unit; the code
  compares code units with ASCII characters, splits and slices, and nothing else.
  A dictionary \<^verbatim>\<open>Record<string, string>\<close> is given by its own properties, a partial map.
\<close>

type_synonym nid = nat
type_synonym dict = "string \<rightharpoonup> string"

text \<open>
  A dictionary is a plain object: \<open>dict\<close> holds its own properties, and every plain object
  inherits the properties of \<^verbatim>\<open>Object.prototype\<close>, which are functions or objects and never
  strings. \<^verbatim>\<open>tagMap[key]\<close> reads the own property if there is one, else the inherited
  one, else \<^verbatim>\<open>undefined\<close>. The names below are those of the language standard; a page
  that adds properties to \<^verbatim>\<open>Object.prototype\<close> is not modelled.
\<close>

datatype jsvalue = Undefined | Str string | Inherited string

definition Object_prototype :: "string list" where
  "Object_prototype =
     [''constructor'', ''__defineGetter__'', ''__defineSetter__'', ''hasOwnProperty'',
      ''__lookupGetter__'', ''__lookupSetter__'', ''isPrototypeOf'', ''propertyIsEnumerable'',
      ''toString'', ''valueOf'', ''__proto__'', ''toLocaleString'']"

definition get_property :: "dict \<Rightarrow> string \<Rightarrow> jsvalue" where
  "get_property m k =
     (case m k of
        Some v \<Rightarrow> Str v
      | None \<Rightarrow> if k \<in> set Object_prototype then Inherited k else Undefined)"

text \<open>\<^verbatim>\<open>!value\<close> holds of \<^verbatim>\<open>undefined\<close> and of the empty string; functions and objects
  are true as conditions.\<close>

definition falsy :: "jsvalue \<Rightarrow> bool" where
  "falsy v = (v = Undefined \<or> v = Str [])"

text \<open>\<^verbatim>\<open>tagMap[key] = v\<close> for a string \<open>v\<close>: it creates or changes the own property, but
  for the key \<^verbatim>\<open>__proto__\<close> on an object without such an own property it runs the
  inherited setter, which ignores a string.\<close>

definition set_property :: "dict \<Rightarrow> string \<Rightarrow> string \<Rightarrow> dict" where
  "set_property m k v = (if k = ''__proto__'' \<and> m k = None then m else m(k \<mapsto> v))"

datatype nodeType = ELEMENT_NODE | TEXT_NODE | DOCUMENT_NODE

text \<open>
  What an element shows is what was last assigned to it: nothing yet (\<open>Children\<close>, the
  child nodes the page gave it), a text through \<^verbatim>\<open>innerText\<close>, or markup through
  \<^verbatim>\<open>innerHTML\<close>. Both setters are functions of the assigned string alone.
\<close>

datatype markup = Children | InnerText string | InnerHTML string

record TagNodeRef =
  node :: nid
  fullKey :: string
  original :: string

record dnode =
  nodeType :: nodeType
  nodeName :: string
  parentNode :: "nid option"
  classList :: "string list"
  attributes :: "string \<rightharpoonup> string"
  textContent :: string
  inner :: markup
  ehs :: "TagNodeRef option"

type_synonym DOM = "nid \<Rightarrow> dnode"

definition parentElement :: "DOM \<Rightarrow> nid \<Rightarrow> nid option" where
  "parentElement d n =
     (case parentNode (d n) of
        None \<Rightarrow> None
      | Some p \<Rightarrow> if nodeType (d p) = ELEMENT_NODE then Some p else None)"

definition hasAttribute :: "DOM \<Rightarrow> nid \<Rightarrow> string \<Rightarrow> bool" where
  "hasAttribute d n a = (attributes (d n) a \<noteq> None)"

definition getAttribute :: "DOM \<Rightarrow> nid \<Rightarrow> string \<Rightarrow> string option" where
  "getAttribute d n a = attributes (d n) a"

definition setAttribute :: "nid \<Rightarrow> string \<Rightarrow> string \<Rightarrow> DOM \<Rightarrow> DOM" where
  "setAttribute n a v d = d(n := (d n)\<lparr>attributes := (attributes (d n))(a \<mapsto> v)\<rparr>)"

text \<open>The reflected properties \<^verbatim>\<open>id\<close> and \<^verbatim>\<open>title\<close> read as the empty string when the
  attribute is missing.\<close>

definition reflected :: "DOM \<Rightarrow> nid \<Rightarrow> string \<Rightarrow> string" where
  "reflected d n a = (case attributes (d n) a of None \<Rightarrow> [] | Some v \<Rightarrow> v)"

text \<open>
  Assigning to \<^verbatim>\<open>innerText\<close> or \<^verbatim>\<open>innerHTML\<close> of an element replaces its children: the
  nodes that were its children lose their parent, and the element shows the assigned
  text or markup (the nodes the assignment creates are part of that value). In a document
  no node is its own parent, and none is detached from itself here.
\<close>

definition replace_children :: "nid \<Rightarrow> markup \<Rightarrow> DOM \<Rightarrow> DOM" where
  "replace_children n m d =
     (\<lambda>x. if x = n then (d n)\<lparr>inner := m\<rparr>
          else if parentNode (d x) = Some n then (d x)\<lparr>parentNode := None\<rparr>
          else d x)"

definition set_innerText :: "nid \<Rightarrow> string \<Rightarrow> DOM \<Rightarrow> DOM" where
  "set_innerText n v d = replace_children n (InnerText v) d"

definition set_innerHTML :: "nid \<Rightarrow> string \<Rightarrow> DOM \<Rightarrow> DOM" where
  "set_innerHTML n v d = replace_children n (InnerHTML v) d"

section \<open>Services the engine is constructed with\<close>

text \<open>
  \<^verbatim>\<open>services/tagging\<close>, \<^verbatim>\<open>services/ui-translation\<close>, \<^verbatim>\<open>services/date-time\<close>,
  \<^verbatim>\<open>services/storage\<close> and \<^verbatim>\<open>services/messaging\<close> are not part of the sources at hand.
  The engine holds them as fields; so does the model, as records of functions and values.
\<close>

record TagKey =
  namespace :: string
  key :: "string option"

text \<open>\<^verbatim>\<open>fullKey\<close> returns the serialised key; the code only asks whether the result is
  falsy, so \<^verbatim>\<open>undefined\<close> and the empty string are one value here.
  \<^verbatim>\<open>markImagesAndEmoji\<close> is handed whatever the lookup in the dictionary gave, and its
  result is the string that the template literal and \<^verbatim>\<open>innerHTML\<close> make of what it
  returns; it is taken to return for every value.\<close>

record Tagging =
  tagging_fullKey :: "TagKey \<Rightarrow> string"
  markImagesAndEmoji :: "jsvalue \<Rightarrow> string"

record ConfigData =
  translateTag :: bool
  translateUi :: bool
  translateTimestamp :: "bool option"

record SyncStorage =
  databaseMap :: "dict option"
  databaseSha :: "string option"

text \<open>One entry of \<^verbatim>\<open>uiData.regexReplacements\<close>, as the function
  \<^verbatim>\<open>s => s.replace(k, v)\<close> restricted to its matches: \<open>None\<close> where the pattern
  \<^verbatim>\<open>k\<close> does not match.\<close>

type_synonym rule = "string \<Rightarrow> string option"

record UiData =
  plainReplacements :: dict
  regexReplacements :: "rule list"

record DateTime =
  Date_parse :: "string \<Rightarrow> int option"
  diff :: "int \<Rightarrow> string"

datatype error = TypeError | Rejection

datatype logentry = TimerStart | TimerEnd | LogError error | LogUpdated string | LogLatest string

record request =
  ifNotMatch :: "string option"

text \<open>The engine. \<open>emitted\<close>, \<open>suspended\<close> and \<open>promises\<close> keep the books of the messaging
  service and of the promises; \<open>translated\<close> is filled only by \<open>record_call\<close> below.\<close>

record Syringe =
  document :: DOM
  storage :: SyncStorage
  uiData :: UiData
  logger :: "logentry list"
  emitted :: "request list"
  tagging :: Tagging
  time :: DateTime
  tags :: "TagNodeRef list"
  tagMap :: "dict option"
  config :: ConfigData
  documentEnd :: bool
  updatingTagMap :: "nat option"
  suspended :: "nat list"
  promises :: nat
  translated :: "nid list"

section \<open>TagNodeRef\<close>

text \<open>The class \<^verbatim>\<open>TagNodeRef\<close> (lines 25 to 95).\<close>

definition ATTR :: string where
  "ATTR = ''ehs-tag''"

text \<open>\<^verbatim>\<open>s.split(c)\<close> for a one-character separator: never empty, one piece more than
  there are separators.\<close>

fun split :: "char \<Rightarrow> string \<Rightarrow> string list" where
  "split c [] = [[]]"
| "split c (x # xs) =
     (if x = c then [] # split c xs
      else (case split c xs of [] \<Rightarrow> [[x]] | p # ps \<Rightarrow> (x # p) # ps))"

text \<open>The destructuring \<^verbatim>\<open>const [namespace, key] = pieces\<close>: a missing second piece is
  \<^verbatim>\<open>undefined\<close>.\<close>

definition destructure2 :: "string list \<Rightarrow> string \<times> string option" where
  "destructure2 ps =
     (case ps of [] \<Rightarrow> ([], None) | [a] \<Rightarrow> (a, None) | a # b # _ \<Rightarrow> (a, Some b))"

definition startsWith :: "string \<Rightarrow> string \<Rightarrow> bool" where
  "startsWith s p = (take (length p) s = p)"

text \<open>\<^verbatim>\<open>id.replace(/_/gi, ' ')\<close>.\<close>

definition underscores_to_spaces :: "string \<Rightarrow> string" where
  "underscores_to_spaces s = map (\<lambda>c. if c = CHR ''_'' then CHR '' '' else c) s"

text \<open>The key the element names, before \<^verbatim>\<open>if (!fullKeyCandidate) return false\<close>:
  from the title, else from the id, else \<^verbatim>\<open>undefined\<close>.\<close>

definition fullKeyCandidate :: "Tagging \<Rightarrow> string \<Rightarrow> string \<Rightarrow> string option" where
  "fullKeyCandidate tg aId aTitle =
     (if aTitle \<noteq> [] then
        (case destructure2 (split CHR '':'' aTitle) of
           (ns, k) \<Rightarrow> Some (tagging_fullKey tg \<lparr>namespace = ns, key = k\<rparr>))
      else if aId \<noteq> [] then
        (let i = (if startsWith aId ''ta_'' then drop 3 aId else aId)
         in case destructure2 (split CHR '':'' (underscores_to_spaces i)) of
              (ns, k) \<Rightarrow>
                (if k \<noteq> None \<and> k \<noteq> Some []
                 then Some (tagging_fullKey tg \<lparr>namespace = ns, key = k\<rparr>)
                 else Some (tagging_fullKey tg \<lparr>namespace = [], key = Some ns\<rparr>)))
      else None)"

text \<open>
  The private constructor. \<^verbatim>\<open>Object.defineProperty(node, 'ehs', { value: this })\<close>
  defines a property that is neither writable nor configurable, so defining it again on
  an element that has one throws a \<^verbatim>\<open>TypeError\<close>, after the two attributes were set.
\<close>

definition construct :: "nid \<Rightarrow> string \<Rightarrow> string \<Rightarrow> DOM \<Rightarrow> (error + TagNodeRef) \<times> DOM" where
  "construct e fk text d =
     (let this = \<lparr>node = e, fullKey = fk, original = text\<rparr>;
          d1 = setAttribute e ATTR text d;
          d2 = setAttribute e ''lang'' ''en'' d1
      in if ehs (d2 e) \<noteq> None then (Inl TypeError, d2)
         else
           let d3 = d2(e := (d2 e)\<lparr>ehs := Some this\<rparr>);
               d4 = (if \<not> hasAttribute d3 e ''title'' then setAttribute e ''title'' fk d3 else d3)
           in (Inr this, d4))"

datatype created = Ref TagNodeRef | Bool bool

text \<open>\<^verbatim>\<open>TagNodeRef.create\<close> (lines 28 to 54): \<open>Bool True\<close> is the specification's
  CLAIMED, \<open>Bool False\<close> its UNCLAIMED.\<close>

definition create :: "nid \<Rightarrow> Syringe \<Rightarrow> (error + created) \<times> Syringe" where
  "create n service =
     (case parentElement (document service) n of
        None \<Rightarrow> (Inr (Bool True), service)
      | Some pe \<Rightarrow>
          if hasAttribute (document service) pe ATTR then (Inr (Bool True), service)
          else
            let aId = reflected (document service) pe ''id'';
                aTitle = reflected (document service) pe ''title''
            in (case fullKeyCandidate (tagging service) aId aTitle of
                  None \<Rightarrow> (Inr (Bool False), service)
                | Some fk \<Rightarrow>
                    if fk = [] then (Inr (Bool False), service)
                    else
                      (case construct pe fk (textContent (document service n)) (document service) of
                         (Inl ex, d) \<Rightarrow> (Inl ex, service\<lparr>document := d\<rparr>)
                       | (Inr r, d) \<Rightarrow> (Inr (Ref r), service\<lparr>document := d\<rparr>))))"

definition alive :: "TagNodeRef \<Rightarrow> Syringe \<Rightarrow> bool" where
  "alive t service = (parentElement (document service) (node t) \<noteq> None)"

text \<open>\<^verbatim>\<open>s[i]\<close> on a string: \<^verbatim>\<open>undefined\<close> out of range.\<close>

definition charAt :: "string \<Rightarrow> nat \<Rightarrow> char option" where
  "charAt s i = (if i < length s then Some (s ! i) else None)"

definition prefixed :: "string \<Rightarrow> string \<Rightarrow> string" where
  "prefixed orig v =
     (if charAt orig 1 = Some CHR '':'' then take 1 orig @ '':'' @ v else v)"

text \<open>\<^verbatim>\<open>TagNodeRef.translate\<close> (lines 73 to 94), the specification's render.
  \<^verbatim>\<open>let value = tagMap[this.fullKey]\<close> is a property read on a plain object.\<close>

definition translate :: "TagNodeRef \<Rightarrow> dict option \<Rightarrow> Syringe \<Rightarrow> bool \<times> Syringe" where
  "translate t tm service =
     (if \<not> alive t service then (True, service)
      else if \<not> translateTag (config service) then
        (True, service\<lparr>document := setAttribute (node t) ''lang'' ''en''
                                (set_innerText (node t) (original t) (document service))\<rparr>)
      else
        (case tm of
           None \<Rightarrow> (False, service)
         | Some m \<Rightarrow>
             (let value = get_property m (fullKey t)
              in if falsy value then (False, service)
                 else
                   let v' = prefixed (original t) (markImagesAndEmoji (tagging service) value)
                   in (True, service\<lparr>document := setAttribute (node t) ''lang'' ''cmn-Hans''
                                           (set_innerHTML (node t) v' (document service))\<rparr>))))"

section \<open>The registry of tag nodes\<close>

text \<open>\<^verbatim>\<open>Syringe.translateTags\<close> (lines 115 to 122), the specification's retranslateAll.
  In \<^verbatim>\<open>tags.forEach((t) => t.translate(tagMap))\<close> the result of each call is dropped.\<close>

fun forEach_translate :: "TagNodeRef list \<Rightarrow> dict option \<Rightarrow> Syringe \<Rightarrow> Syringe" where
  "forEach_translate [] tm service = service"
| "forEach_translate (t # ts) tm service = forEach_translate ts tm (snd (translate t tm service))"

text \<open>\<^verbatim>\<open>a ??= b\<close>.\<close>

definition nullish :: "'a option \<Rightarrow> 'a option \<Rightarrow> 'a option" where
  "nullish a b = (case a of None \<Rightarrow> b | Some x \<Rightarrow> Some x)"

definition translateTags :: "dict option \<Rightarrow> Syringe \<Rightarrow> Syringe" where
  "translateTags tm0 service =
     (let ts = filter (\<lambda>t. alive t service) (tags service);
          s1 = service\<lparr>tags := ts\<rparr>;
          tm1 = nullish tm0 (tagMap s1);
          tm2 = nullish tm1 (databaseMap (storage s1));
          s2 = s1\<lparr>tagMap := tm2\<rparr>
      in forEach_translate ts tm2 s2)"

definition isTagContainer :: "DOM \<Rightarrow> nid option \<Rightarrow> bool" where
  "isTagContainer d n =
     (case n of
        None \<Rightarrow> False
      | Some e \<Rightarrow> ''gt'' \<in> set (classList (d e)) \<or> ''gtl'' \<in> set (classList (d e))
                 \<or> ''gtw'' \<in> set (classList (d e)))"

text \<open>\<^verbatim>\<open>Syringe.isTagContainer\<close> (lines 294 to 299) is above, \<^verbatim>\<open>Syringe.translateTag\<close>
  (lines 301 to 323) below; the configuration has a field of the same name.\<close>

definition Syringe_translateTag :: "nid \<Rightarrow> Syringe \<Rightarrow> (error + bool) \<times> Syringe" where
  "Syringe_translateTag n service =
     (case parentElement (document service) n of
        None \<Rightarrow> (Inr False, service)
      | Some pe \<Rightarrow>
          if nodeType (document service n) \<noteq> TEXT_NODE then (Inr False, service)
          else if nodeName (document service pe) = ''MARK''
                  \<or> ''auto-complete-text'' \<in> set (classList (document service pe))
          then (Inr True, service)
          else if \<not> isTagContainer (document service) (Some pe)
                  \<and> \<not> isTagContainer (document service) (parentElement (document service) pe)
          then (Inr False, service)
          else
            (case create n service of
               (Inl ex, s1) \<Rightarrow> (Inl ex, s1)
             | (Inr (Bool b), s1) \<Rightarrow> (Inr b, s1)
             | (Inr (Ref r), s1) \<Rightarrow>
                 (let s2 = snd (translate r (tagMap s1) s1)
                  in (Inr True, s2\<lparr>tags := tags s2 @ [r]\<rparr>))))"

text \<open>What the marker attribute is there for: no two entries of the registry own the same
  element, and every owned element carries the marker.\<close>

definition registry_ok :: "Syringe \<Rightarrow> bool" where
  "registry_ok service =
     (distinct (map node (tags service))
      \<and> list_all (\<lambda>t. hasAttribute (document service) (node t) ATTR) (tags service))"

section \<open>The refresh of the dictionary\<close>

text \<open>
  \<^verbatim>\<open>Syringe.updateTagMap\<close> (lines 210 to 242), the specification's refresh.
  \<^verbatim>\<open>updateTagMap\<close> starts an async function and stores its promise in
  \<^verbatim>\<open>this.updatingTagMap\<close>. The body runs synchronously up to
  \<^verbatim>\<open>await this.messaging.emit('get-tag-map', ...)\<close>; the rest runs when the provider
  settles the request. A promise is identified by a number; \<open>suspended\<close> holds the bodies
  waiting at the \<^verbatim>\<open>await\<close>, \<open>emitted\<close> the requests handed to the provider.
  \<^verbatim>\<open>emit\<close> may also throw on the spot; then the body ends before the call of the async
  function returns, at a moment where the closure's variable \<^verbatim>\<open>updatingTagMap\<close> is still
  \<^verbatim>\<open>undefined\<close>.
\<close>

datatype emit_outcome = EmitThrows | EmitPending

record payload =
  data_map :: "(string \<times> string option) list option"
  data_sha :: string

datatype response = Rejected | Resolved "payload option"

text \<open>\<^verbatim>\<open>for (const key in data.map) tagMap[key] = data.map[key].name\<close>; an entry that is
  \<^verbatim>\<open>null\<close> (\<open>None\<close>) has no \<^verbatim>\<open>name\<close> to read, and the read comes before the
  assignment.\<close>

fun build_tagMap :: "(string \<times> string option) list \<Rightarrow> dict \<Rightarrow> error + dict" where
  "build_tagMap [] m = Inr m"
| "build_tagMap ((k, None) # es) m = Inl TypeError"
| "build_tagMap ((k, Some n) # es) m = build_tagMap es (set_property m k n)"

text \<open>The \<^verbatim>\<open>try\<close> block from the \<^verbatim>\<open>await\<close> on. It can throw where the promise is
  rejected, where \<^verbatim>\<open>data\<close> is no object and where an entry of the map is none: each time
  before \<^verbatim>\<open>translateTags\<close> and \<^verbatim>\<open>storage.set\<close> are reached, so that the engine is then as
  it was when the body resumed.\<close>

definition try_block :: "response \<Rightarrow> Syringe \<Rightarrow> error + Syringe" where
  "try_block r service =
     (case r of
        Rejected \<Rightarrow> Inl Rejection
      | Resolved None \<Rightarrow> Inl TypeError
      | Resolved (Some data) \<Rightarrow>
          (case data_map data of
             None \<Rightarrow> Inr (service\<lparr>logger := logger service @ [LogLatest (data_sha data)]\<rparr>)
           | Some es \<Rightarrow>
               (case build_tagMap es Map.empty of
                  Inl ex \<Rightarrow> Inl ex
                | Inr tm \<Rightarrow>
                    (let s1 = translateTags (Some tm) service;
                         s2 = s1\<lparr>storage := (storage s1)\<lparr>databaseMap := Some tm\<rparr>\<rparr>;
                         s3 = s2\<lparr>storage := (storage s2)\<lparr>databaseSha := Some (data_sha data)\<rparr>\<rparr>
                     in Inr (s3\<lparr>logger := logger s3 @ [LogUpdated (data_sha data)]\<rparr>)))))"

definition catch_block :: "error \<Rightarrow> Syringe \<Rightarrow> Syringe" where
  "catch_block ex service = service\<lparr>logger := logger service @ [LogError ex]\<rparr>"

text \<open>The \<^verbatim>\<open>finally\<close> block; \<open>mine\<close> is the closure's variable \<^verbatim>\<open>updatingTagMap\<close>.\<close>

definition finally_block :: "nat option \<Rightarrow> Syringe \<Rightarrow> Syringe" where
  "finally_block mine service =
     (let s1 = service\<lparr>logger := logger service @ [TimerEnd]\<rparr>
      in if updatingTagMap s1 = mine then s1\<lparr>updatingTagMap := None\<rparr> else s1)"

definition resume :: "nat \<Rightarrow> response \<Rightarrow> Syringe \<Rightarrow> Syringe" where
  "resume p r service =
     finally_block (Some p)
       (case try_block r service of
          Inl ex \<Rightarrow> catch_block ex service
        | Inr s1 \<Rightarrow> s1)"

definition updateTagMap :: "emit_outcome \<Rightarrow> Syringe \<Rightarrow> Syringe" where
  "updateTagMap eo service =
     (if updatingTagMap service \<noteq> None then service
      else
        let p = promises service;
            s1 = service\<lparr>logger := logger service @ [TimerStart]\<rparr>;
            currentSha = databaseSha (storage s1);
            s2 = s1\<lparr>emitted := emitted s1 @ [\<lparr>ifNotMatch = currentSha\<rparr>]\<rparr>;
            s3 = (case eo of
                    EmitThrows \<Rightarrow> finally_block None (catch_block Rejection s2)
                  | EmitPending \<Rightarrow> s2\<lparr>suspended := suspended s2 @ [p]\<rparr>)
        in s3\<lparr>updatingTagMap := Some p, promises := Suc p\<rparr>)"

text \<open>What can happen to the engine between two turns: a trigger calls
  \<^verbatim>\<open>updateTagMap\<close>; the provider settles the request of a suspended body (nothing
  happens for a promise that is not waiting); the walk or the observer reaches a node and
  calls \<^verbatim>\<open>translateTag\<close> on it; a change of configuration calls \<^verbatim>\<open>translateTags()\<close>.\<close>

datatype event = Trigger emit_outcome | Settle nat response | Classify nid | Retranslate

fun fire :: "event \<Rightarrow> Syringe \<Rightarrow> Syringe" where
  "fire (Trigger eo) service = updateTagMap eo service"
| "fire (Settle p r) service =
     (if p \<in> set (suspended service)
      then resume p r (service\<lparr>suspended := removeAll p (suspended service)\<rparr>)
      else service)"
| "fire (Classify n) service = snd (Syringe_translateTag n service)"
| "fire Retranslate service = translateTags None service"

fun run :: "event list \<Rightarrow> Syringe \<Rightarrow> Syringe" where
  "run [] service = service"
| "run (e # es) service = run es (fire e service)"

text \<open>The in-flight guard covers the one body that waits, if any.\<close>

definition guarded :: "Syringe \<Rightarrow> bool" where
  "guarded service =
     (case suspended service of
        [] \<Rightarrow> True
      | [p] \<Rightarrow> updatingTagMap service = Some p
      | _ \<Rightarrow> False)"

section \<open>The generic translation of user-interface text\<close>

text \<open>\<^verbatim>\<open>Syringe.translateUiText\<close> (lines 325 to 353). First its loop
  \<^verbatim>\<open>for (const [k, v] of regexReplacements) repText = repText.replace(k, v)\<close>.\<close>

definition replace_rule :: "rule \<Rightarrow> string \<Rightarrow> string" where
  "replace_rule r t = (case r t of None \<Rightarrow> t | Some t' \<Rightarrow> t')"

fun apply_rules :: "rule list \<Rightarrow> string \<Rightarrow> string" where
  "apply_rules [] repText = repText"
| "apply_rules (r # rs) repText = apply_rules rs (replace_rule r repText)"

text \<open>
  The two timestamp patterns are sequences of one-character classes: a digit
  (\<^verbatim>\<open>\d\<close>), a literal character, or a letter in either case (the second pattern has
  the flag \<^verbatim>\<open>i\<close>).
\<close>

datatype cls = Digit | Lit char | Letter char

definition lower :: "char \<Rightarrow> char" where
  "lower c =
     (case map_of (zip ''ABCDEFGHIJKLMNOPQRSTUVWXYZ'' ''abcdefghijklmnopqrstuvwxyz'') c of
        None \<Rightarrow> c
      | Some l \<Rightarrow> l)"

fun matches :: "cls \<Rightarrow> char \<Rightarrow> bool" where
  "matches Digit x = (x \<in> set ''0123456789'')"
| "matches (Lit c) x = (x = c)"
| "matches (Letter c) x = (lower x = lower c)"

fun match_prefix :: "cls list \<Rightarrow> string \<Rightarrow> bool" where
  "match_prefix [] s = True"
| "match_prefix (c # cs) [] = False"
| "match_prefix (c # cs) (x # xs) = (matches c x \<and> match_prefix cs xs)"

definition match_pattern :: "cls list \<Rightarrow> string \<Rightarrow> string option" where
  "match_pattern p s = (if match_prefix p s then Some (take (length p) s) else None)"

text \<open>The pattern \<^verbatim>\<open>/\d\d\d\d-\d\d-\d\d \d\d:\d\d/g\<close>.\<close>

definition iso_pattern :: "cls list" where
  "iso_pattern =
     [Digit, Digit, Digit, Digit, Lit CHR ''-'', Digit, Digit, Lit CHR ''-'', Digit, Digit,
      Lit CHR '' '', Digit, Digit, Lit CHR '':'', Digit, Digit]"

definition match_iso :: "string \<Rightarrow> string option" where
  "match_iso s = match_pattern iso_pattern s"

text \<open>The pattern \<^verbatim>\<open>/\d\d (January|...|December) \d\d\d\d, \d\d:\d\d/gi\<close>; the
  alternatives are tried in their order.\<close>

definition months :: "string list" where
  "months = [''January'', ''February'', ''March'', ''April'', ''May'', ''June'', ''July'',
             ''August'', ''September'', ''October'', ''November'', ''December'']"

definition long_pattern :: "string \<Rightarrow> cls list" where
  "long_pattern month =
     [Digit, Digit, Lit CHR '' ''] @ map Letter month
     @ [Lit CHR '' '', Digit, Digit, Digit, Digit, Lit CHR '','', Lit CHR '' '',
        Digit, Digit, Lit CHR '':'', Digit, Digit]"

fun first_match :: "cls list list \<Rightarrow> string \<Rightarrow> string option" where
  "first_match [] s = None"
| "first_match (p # ps) s =
     (case match_pattern p s of None \<Rightarrow> first_match ps s | Some m \<Rightarrow> Some m)"

definition match_long :: "string \<Rightarrow> string option" where
  "match_long s = first_match (map long_pattern months) s"

text \<open>\<^verbatim>\<open>s.replace(re, f)\<close> for a global pattern given by its matcher at a position:
  leftmost matches, not overlapping, each replaced by \<open>f\<close> of the match.\<close>

function replace_global ::
  "(string \<Rightarrow> string option) \<Rightarrow> (string \<Rightarrow> string) \<Rightarrow> string \<Rightarrow> string" where
  "replace_global m f [] = []"
| "replace_global m f (x # xs) =
     (case m (x # xs) of
        None \<Rightarrow> x # replace_global m f xs
      | Some t \<Rightarrow> f t @ replace_global m f (drop (length t - 1) xs))"
  by pat_completeness auto
termination
  by (relation "measure (\<lambda>(m, f, s). length s)") auto

text \<open>The callback of both timestamp replacements; \<^verbatim>\<open>!date\<close> holds of \<^verbatim>\<open>NaN\<close>
  (\<open>None\<close>) and of 0.\<close>

definition relative :: "DateTime \<Rightarrow> string \<Rightarrow> string \<Rightarrow> string" where
  "relative tm suffix t =
     (case Date_parse tm (t @ suffix) of
        None \<Rightarrow> t
      | Some date \<Rightarrow> if date = 0 then t else diff tm date)"

definition translateUiText :: "Syringe \<Rightarrow> string \<Rightarrow> string option" where
  "translateUiText service text =
     (case plainReplacements (uiData service) text of
        Some plain \<Rightarrow> Some plain
      | None \<Rightarrow>
          let rep1 = apply_rules (regexReplacements (uiData service)) text;
              rep2 = (if translateTimestamp (config service) \<noteq> Some False
                      then replace_global match_long (relative (time service) '' UTC'')
                             (replace_global match_iso (relative (time service) ''Z'') rep1)
                      else rep1)
          in if rep2 \<noteq> text then Some rep2 else None)"

text \<open>
  The reading of the specification, to compare with: the rules are tried in order on the
  original text, the first one that matches gives the result, and no later rule is
  attempted.
\<close>

fun spec_first_rule_wins :: "rule list \<Rightarrow> string \<Rightarrow> string" where
  "spec_first_rule_wins [] text = text"
| "spec_first_rule_wins (r # rs) text =
     (case r text of None \<Rightarrow> spec_first_rule_wins rs text | Some t' \<Rightarrow> t')"

section \<open>The mutation observer\<close>

text \<open>
  The callback of the \<^verbatim>\<open>MutationObserver\<close> that \<^verbatim>\<open>init\<close> installs (lines 185 to 199).
  An added node arrives with its subtree. \<^verbatim>\<open>document.createNodeIterator(node1)\<close>
  returns, call after call of \<^verbatim>\<open>nextNode()\<close>, the root \<^verbatim>\<open>node1\<close> itself and then its
  descendants in document order. \<^verbatim>\<open>translateNode\<close> is a parameter of the callback, and
  the walk is over the subtree as it was added.
\<close>

datatype subtree = Subtree (root: nid) (childNodes: "subtree list")

fun nodeIterator :: "subtree \<Rightarrow> nid list" where
  "nodeIterator (Subtree n cs) = n # concat (map nodeIterator cs)"

fun descendants :: "subtree \<Rightarrow> nid list" where
  "descendants (Subtree n cs) = concat (map nodeIterator cs)"

record mutation =
  addedNodes :: "subtree list"

text \<open>\<^verbatim>\<open>while (node) { this.translateNode(node); node = nodeIterator.nextNode(); }\<close>\<close>

fun walk :: "(nid \<Rightarrow> Syringe \<Rightarrow> Syringe) \<Rightarrow> nid list \<Rightarrow> Syringe \<Rightarrow> Syringe" where
  "walk translateNode [] service = service"
| "walk translateNode (n # ns) service = walk translateNode ns (translateNode n service)"

text \<open>The body for one added node. \<^verbatim>\<open>node1.childNodes\<close> is a \<^verbatim>\<open>NodeList\<close> object, and
  so true as a condition whether it has members or not.\<close>

definition added :: "(nid \<Rightarrow> Syringe \<Rightarrow> Syringe) \<Rightarrow> subtree \<Rightarrow> Syringe \<Rightarrow> Syringe" where
  "added translateNode node1 service =
     (let s1 = translateNode (root node1) service
      in if documentEnd s1 \<and> True then walk translateNode (nodeIterator node1) s1 else s1)"

fun forEach_added :: "(nid \<Rightarrow> Syringe \<Rightarrow> Syringe) \<Rightarrow> subtree list \<Rightarrow> Syringe \<Rightarrow> Syringe" where
  "forEach_added translateNode [] service = service"
| "forEach_added translateNode (n # ns) service =
     forEach_added translateNode ns (added translateNode n service)"

fun observer :: "(nid \<Rightarrow> Syringe \<Rightarrow> Syringe) \<Rightarrow> mutation list \<Rightarrow> Syringe \<Rightarrow> Syringe" where
  "observer translateNode [] service = service"
| "observer translateNode (m # ms) service =
     observer translateNode ms (forEach_added translateNode (addedNodes m) service)"

text \<open>A \<^verbatim>\<open>translateNode\<close> that only records on which node it was called.\<close>

definition record_call :: "nid \<Rightarrow> Syringe \<Rightarrow> Syringe" where
  "record_call n service = service\<lparr>translated := translated service @ [n]\<rparr>"

section \<open>A small page and an engine on it\<close>

text \<open>Modelled from the spec: the serialisation \<^verbatim>\<open>fullKey\<close> of \<^verbatim>\<open>services/tagging\<close>, which
  is not among the sources: \<^verbatim>\<open>namespace:key\<close>, or just \<^verbatim>\<open>key\<close> when the namespace is the
  default one. It only serves to run the engine on the page below.\<close>

definition spec_fullKey :: "TagKey \<Rightarrow> string" where
  "spec_fullKey k =
     (case key k of
        None \<Rightarrow> []
      | Some x \<Rightarrow> if namespace k = [] then x else namespace k @ '':'' @ x)"

definition document_node :: dnode where
  "document_node =
     \<lparr>nodeType = DOCUMENT_NODE, nodeName = ''#document'', parentNode = None, classList = [],
      attributes = Map.empty, textContent = [], inner = Children, ehs = None\<rparr>"

definition element :: "string \<Rightarrow> nid \<Rightarrow> string list \<Rightarrow> (string \<rightharpoonup> string) \<Rightarrow> dnode" where
  "element name p cl as =
     \<lparr>nodeType = ELEMENT_NODE, nodeName = name, parentNode = Some p, classList = cl,
      attributes = as, textContent = [], inner = Children, ehs = None\<rparr>"

definition text_node :: "nid \<Rightarrow> string \<Rightarrow> dnode" where
  "text_node p t =
     \<lparr>nodeType = TEXT_NODE, nodeName = ''#text'', parentNode = Some p, classList = [],
      attributes = Map.empty, textContent = t, inner = Children, ehs = None\<rparr>"

text \<open>
  \<^verbatim>\<open><html><body><div class="gt" title="female:nakadashi">nakadashi</div>
  <a class="gt" id="ta_temp_bondage">temp bondage</a></body></html>\<close>,
  the document being node 0.
\<close>

definition page :: DOM where
  "page =
     (\<lambda>_. document_node)
       (1 := element ''HTML'' 0 [] Map.empty,
        2 := element ''BODY'' 1 [] Map.empty,
        3 := element ''DIV'' 2 [''gt''] [''title'' \<mapsto> ''female:nakadashi''],
        4 := text_node 3 ''nakadashi'',
        5 := element ''A'' 2 [''gt''] [''id'' \<mapsto> ''ta_temp_bondage''],
        6 := text_node 5 ''temp bondage'')"

text \<open>A \<^verbatim>\<open>markImagesAndEmoji\<close> that finds nothing to expand.\<close>

definition as_markup :: "jsvalue \<Rightarrow> string" where
  "as_markup v =
     (case v of
        Undefined \<Rightarrow> ''undefined''
      | Str s \<Rightarrow> s
      | Inherited k \<Rightarrow> ''[object Object]'')"

definition engine :: Syringe where
  "engine =
     \<lparr>document = page,
      storage = \<lparr>databaseMap = None, databaseSha = None\<rparr>,
      uiData = \<lparr>plainReplacements = Map.empty, regexReplacements = []\<rparr>,
      logger = [], emitted = [],
      tagging = \<lparr>tagging_fullKey = spec_fullKey, markImagesAndEmoji = as_markup\<rparr>,
      time = \<lparr>Date_parse = (\<lambda>_. None), diff = (\<lambda>_. [])\<rparr>,
      tags = [], tagMap = None,
      config = \<lparr>translateTag = True, translateUi = True, translateTimestamp = Some False\<rparr>,
      documentEnd = False, updatingTagMap = None, suspended = [], promises = 0,
      translated = []\<rparr>"

definition nakadashi :: TagNodeRef where
  "nakadashi = \<lparr>node = 3, fullKey = ''female:nakadashi'', original = ''nakadashi''\<rparr>"

definition D1 :: dict where
  "D1 = [''female:nakadashi'' \<mapsto> ''label one'']"

definition D2 :: dict where
  "D2 = [''temp bondage'' \<mapsto> ''label two'']"

text \<open>The engine after its walk met the text of the first tag while \<open>D1\<close> was the
  dictionary.\<close>

definition rendered_D1 :: Syringe where
  "rendered_D1 = snd (Syringe_translateTag 4 (engine\<lparr>tagMap := Some D1\<rparr>))"

text \<open>The engine after it claimed the first tag with no dictionary at hand.\<close>

definition claimed :: Syringe where
  "claimed = snd (Syringe_translateTag 4 engine)"

text \<open>The rule \<^verbatim>\<open>[/^a$/, b]\<close> for two fixed texts \<open>a\<close> and \<open>b\<close>.\<close>

definition whole_text :: "string \<Rightarrow> string \<Rightarrow> rule" where
  "whole_text a b = (\<lambda>s. if s = a then Some b else None)"

definition two_rules :: Syringe where
  "two_rules =
     engine\<lparr>uiData := \<lparr>plainReplacements = Map.empty,
                        regexReplacements = [whole_text ''Once'' ''1 time'',
                                             whole_text ''1 time'' ''1 x'']\<rparr>\<rparr>"

text \<open>A reference whose element has no parent element, and the engine with the
  translation of tags switched off.\<close>

definition detached :: TagNodeRef where
  "detached = \<lparr>node = 1, fullKey = ''female:nakadashi'', original = ''nakadashi''\<rparr>"

definition disabled :: Syringe where
  "disabled = claimed\<lparr>config := (config claimed)\<lparr>translateTag := False\<rparr>\<rparr>"

definition bondage :: TagNodeRef where
  "bondage = \<lparr>node = 5, fullKey = ''temp bondage'', original = ''temp bondage''\<rparr>"

text \<open>The engine after its walk met the texts of both tags while \<open>D1\<close> was the
  dictionary.\<close>

definition both_D1 :: Syringe where
  "both_D1 = snd (Syringe_translateTag 6 rendered_D1)"

text \<open>What it means that the provider request or the decoding of its answer fails: the
  request is rejected, the answer is no object, or an entry of its map is no object.\<close>

definition request_or_decoding_fails :: "response \<Rightarrow> bool" where
  "request_or_decoding_fails r =
     (case r of
        Rejected \<Rightarrow> True
      | Resolved None \<Rightarrow> True
      | Resolved (Some data) \<Rightarrow>
          (case data_map data of None \<Rightarrow> False | Some es \<Rightarrow> None \<in> snd ` set es))"

text \<open>The engine while its first refresh waits for the provider, and three answers: a new
  map, a map with an entry that is \<^verbatim>\<open>null\<close>, and "unchanged".\<close>

definition waiting :: Syringe where
  "waiting = run [Trigger EmitPending] engine"

definition new_map :: response where
  "new_map =
     Resolved (Some \<lparr>data_map = Some [(''female:nakadashi'', Some ''label one'')],
                     data_sha = ''5f2a''\<rparr>)"

definition broken_map :: response where
  "broken_map =
     Resolved (Some \<lparr>data_map = Some [(''female:nakadashi'', Some ''label one''),
                                      (''temp bondage'', None)],
                     data_sha = ''5f2a''\<rparr>)"

definition unchanged :: response where
  "unchanged = Resolved (Some \<lparr>data_map = None, data_sha = ''5f2a''\<rparr>)"

text \<open>The engine once the document is ready.\<close>

definition engine_ready :: Syringe where
  "engine_ready = engine\<lparr>documentEnd := True\<rparr>"

section \<open>Facts about the document operations\<close>

lemma replace_children_other_fields [simp]:
  "nodeType (replace_children n m d x) = nodeType (d x)"
  "nodeName (replace_children n m d x) = nodeName (d x)"
  "classList (replace_children n m d x) = classList (d x)"
  "attributes (replace_children n m d x) = attributes (d x)"
  "textContent (replace_children n m d x) = textContent (d x)"
  "ehs (replace_children n m d x) = ehs (d x)"
  by (simp_all add: replace_children_def)

lemma replace_children_inner:
  "inner (replace_children n m d x) = (if x = n then m else inner (d x))"
  by (simp add: replace_children_def)

lemma replace_children_parentNode:
  "parentNode (replace_children n m d x)
     = (if x \<noteq> n \<and> parentNode (d x) = Some n then None else parentNode (d x))"
  by (simp add: replace_children_def)

lemma replace_children_self:
  "replace_children n m d n = (d n)\<lparr>inner := m\<rparr>"
  by (simp add: replace_children_def)

lemma replace_children_kept:
  "parentNode (replace_children n m d x) \<noteq> None \<Longrightarrow> x \<noteq> n \<Longrightarrow>
     replace_children n m d x = d x"
  by (auto simp: replace_children_def split: if_splits)

lemma setAttribute_other_fields [simp]:
  "nodeType (setAttribute n a v d x) = nodeType (d x)"
  "parentNode (setAttribute n a v d x) = parentNode (d x)"
  "inner (setAttribute n a v d x) = inner (d x)"
  "ehs (setAttribute n a v d x) = ehs (d x)"
  by (simp_all add: setAttribute_def)

lemma setAttribute_elsewhere:
  "x \<noteq> n \<Longrightarrow> setAttribute n a v d x = d x"
  by (simp add: setAttribute_def)

lemma parentElement_setAttribute [simp]:
  "parentElement (setAttribute n a v d) x = parentElement d x"
  by (simp add: parentElement_def split: option.splits)

lemma parentElement_replace_children:
  "parentElement (replace_children n m d) x
     = (if x \<noteq> n \<and> parentNode (d x) = Some n then None else parentElement d x)"
  by (simp add: parentElement_def replace_children_parentNode split: option.splits)

lemma render_twice:
  "setAttribute n a v (replace_children n m (setAttribute n a v (replace_children n m d)))
     = setAttribute n a v (replace_children n m d)"
  by (auto simp: setAttribute_def replace_children_def fun_eq_iff)

lemma hasAttribute_setAttribute:
  "hasAttribute d x a \<Longrightarrow> hasAttribute (setAttribute n b v d) x a"
  by (auto simp: hasAttribute_def setAttribute_def)

lemma hasAttribute_replace_children [simp]:
  "hasAttribute (replace_children n m d) x a = hasAttribute d x a"
  by (simp add: hasAttribute_def)

section \<open>What a rendering leaves alone\<close>

lemma translate_frame:
  "snd (translate t D s) = s\<lparr>document := document (snd (translate t D s))\<rparr>"
  by (simp add: translate_def Let_def split: option.splits)

lemma translate_fields [simp]:
  "tags (snd (translate t D s)) = tags s"
  "config (snd (translate t D s)) = config s"
  "tagging (snd (translate t D s)) = tagging s"
  "tagMap (snd (translate t D s)) = tagMap s"
  "storage (snd (translate t D s)) = storage s"
  "suspended (snd (translate t D s)) = suspended s"
  "updatingTagMap (snd (translate t D s)) = updatingTagMap s"
  "emitted (snd (translate t D s)) = emitted s"
  "logger (snd (translate t D s)) = logger s"
  "promises (snd (translate t D s)) = promises s"
  by (simp_all add: translate_def Let_def split: option.splits)

text \<open>The element of the rendered node keeps its parent; any other node keeps its parent
  or loses it.\<close>

lemma translate_alive_self [simp]:
  "alive t (snd (translate t D s)) = alive t s"
  by (simp add: translate_def alive_def Let_def set_innerText_def set_innerHTML_def
      parentElement_replace_children split: option.splits)

lemma translate_alive_mono:
  "alive u (snd (translate t D s)) \<Longrightarrow> alive u s"
  by (simp add: translate_def alive_def Let_def set_innerText_def set_innerHTML_def
      parentElement_replace_children split: option.splits if_splits)

lemma translate_elsewhere:
  "x \<noteq> node t \<Longrightarrow> parentNode (document (snd (translate t D s)) x) \<noteq> None \<Longrightarrow>
     document (snd (translate t D s)) x = document s x"
  by (simp add: translate_def Let_def set_innerText_def set_innerHTML_def
      setAttribute_elsewhere replace_children_kept split: option.splits if_splits)

lemma translate_hasAttribute:
  "hasAttribute (document s) x a \<Longrightarrow> hasAttribute (document (snd (translate t D s))) x a"
  by (simp add: translate_def Let_def set_innerText_def set_innerHTML_def
      hasAttribute_setAttribute split: option.splits)

lemma translate_local:
  assumes "document s' (node t) = document s (node t)" "alive t s' = alive t s"
    "config s' = config s" "tagging s' = tagging s"
  shows "document (snd (translate t D s')) (node t) = document (snd (translate t D s)) (node t)"
  using assms
  by (simp add: translate_def Let_def setAttribute_def set_innerText_def set_innerHTML_def
      replace_children_self split: option.splits)

lemma forEach_fields [simp]:
  "tags (forEach_translate ts D s) = tags s"
  "config (forEach_translate ts D s) = config s"
  "tagging (forEach_translate ts D s) = tagging s"
  "tagMap (forEach_translate ts D s) = tagMap s"
  "storage (forEach_translate ts D s) = storage s"
  "suspended (forEach_translate ts D s) = suspended s"
  "updatingTagMap (forEach_translate ts D s) = updatingTagMap s"
  "emitted (forEach_translate ts D s) = emitted s"
  "logger (forEach_translate ts D s) = logger s"
  "promises (forEach_translate ts D s) = promises s"
  by (induction ts arbitrary: s; simp)+

lemma forEach_alive_mono:
  "alive u (forEach_translate ts D s) \<Longrightarrow> alive u s"
  by (induction ts arbitrary: s) (auto dest: translate_alive_mono)

lemma alive_parentNode:
  "alive u s \<Longrightarrow> parentNode (document s (node u)) \<noteq> None"
  by (auto simp: alive_def parentElement_def split: option.splits)

lemma forEach_elsewhere:
  "node u \<notin> node ` set ts \<Longrightarrow> alive u (forEach_translate ts D s) \<Longrightarrow>
     document (forEach_translate ts D s) (node u) = document s (node u)"
proof (induction ts arbitrary: s)
  case Nil
  then show ?case by simp
next
  case (Cons x xs)
  from Cons.prems have ne: "node u \<noteq> node x" and rest: "node u \<notin> node ` set xs"
    and al: "alive u (forEach_translate xs D (snd (translate x D s)))" by simp_all
  have "alive u (snd (translate x D s))" using al by (rule forEach_alive_mono)
  then have "document (snd (translate x D s)) (node u) = document s (node u)"
    using ne by (intro translate_elsewhere alive_parentNode)
  with Cons.IH [OF rest al] show ?case by simp
qed

lemma forEach_hasAttribute:
  "hasAttribute (document s) x a \<Longrightarrow> hasAttribute (document (forEach_translate ts D s)) x a"
  by (induction ts arbitrary: s) (simp_all add: translate_hasAttribute)

text \<open>In a pass over references with distinct elements, a node that is alive at the end
  has the element that its own rendering gave it.\<close>

lemma forEach_at:
  "distinct (map node ts) \<Longrightarrow> t \<in> set ts \<Longrightarrow> alive t (forEach_translate ts D s) \<Longrightarrow>
     document (forEach_translate ts D s) (node t) = document (snd (translate t D s)) (node t)"
proof (induction ts arbitrary: s)
  case Nil
  then show ?case by simp
next
  case (Cons x xs)
  let ?s' = "snd (translate x D s)"
  from Cons.prems have al: "alive t (forEach_translate xs D ?s')" by simp
  show ?case
  proof (cases "t = x")
    case True
    with Cons.prems have "node t \<notin> node ` set xs" by simp
    then show ?thesis using True al by (simp add: forEach_elsewhere)
  next
    case False
    with Cons.prems have t: "t \<in> set xs" and d: "distinct (map node xs)" and
      ne: "node t \<noteq> node x" by (auto simp: image_iff)
    have al': "alive t ?s'" using al by (rule forEach_alive_mono)
    then have al0: "alive t s" by (rule translate_alive_mono)
    have same: "document ?s' (node t) = document s (node t)"
      using ne al' by (intro translate_elsewhere alive_parentNode)
    have "document (forEach_translate xs D ?s') (node t)
            = document (snd (translate t D ?s')) (node t)"
      by (rule Cons.IH [OF d t al])
    also have "\<dots> = document (snd (translate t D s)) (node t)"
      using same al' al0 by (intro translate_local) simp_all
    finally show ?thesis by simp
  qed
qed
section \<open>The example engine, evaluated\<close>

lemmas engine_defs = engine_def page_def element_def text_node_def document_node_def
  spec_fullKey_def nakadashi_def D1_def D2_def

lemmas op_defs = Syringe_translateTag_def create_def construct_def translate_def alive_def
  parentElement_def hasAttribute_def getAttribute_def setAttribute_def reflected_def
  set_innerText_def set_innerHTML_def replace_children_def isTagContainer_def fullKeyCandidate_def destructure2_def
  startsWith_def underscores_to_spaces_def ATTR_def prefixed_def charAt_def
  get_property_def falsy_def Object_prototype_def as_markup_def

lemma claimed_eq:
  "claimed = engine\<lparr>document := (document engine)(3 := (document engine 3)\<lparr>
        attributes := [''title'' \<mapsto> ''female:nakadashi'', ''ehs-tag'' \<mapsto> ''nakadashi'',
                       ''lang'' \<mapsto> ''en''],
        ehs := Some nakadashi\<rparr>), tags := [nakadashi]\<rparr>"
  by (simp add: claimed_def engine_defs op_defs Let_def)

lemma rendered_D1_eq:
  "rendered_D1 = engine\<lparr>document := (document engine)
       (3 := (document engine 3)\<lparr>
          attributes := [''title'' \<mapsto> ''female:nakadashi'', ''ehs-tag'' \<mapsto> ''nakadashi'',
                         ''lang'' \<mapsto> ''cmn-Hans''],
          inner := InnerHTML ''label one'',
          ehs := Some nakadashi\<rparr>,
        4 := (document engine 4)\<lparr>parentNode := None\<rparr>),
     tags := [nakadashi], tagMap := Some D1\<rparr>"
  by (simp add: rendered_D1_def engine_defs op_defs Let_def fun_eq_iff)

lemma claimed_facts:
  "alive nakadashi claimed" "translateTag (config claimed)"
  "fullKey nakadashi = ''female:nakadashi''" "node nakadashi = 3"
  "original nakadashi = ''nakadashi''"
  "markImagesAndEmoji (tagging claimed) (Str v) = v"
  "inner (document claimed 3) = Children"
  "getAttribute (document claimed) 3 ''lang'' = Some ''en''"
  by (simp_all add: claimed_eq engine_defs alive_def parentElement_def getAttribute_def
      as_markup_def)

section \<open>Rendering one tracked node\<close>

lemma get_property_own:
  "m k = Some v \<Longrightarrow> get_property m k = Str v"
  by (simp add: get_property_def)

lemma get_property_absent:
  "m k = None \<Longrightarrow> k \<notin> set Object_prototype \<Longrightarrow> get_property m k = Undefined"
  by (simp add: get_property_def)

lemma get_property_inherited:
  "m k = None \<Longrightarrow> k \<in> set Object_prototype \<Longrightarrow> get_property m k = Inherited k"
  by (simp add: get_property_def)

lemma tag_keys_not_inherited:
  "''female:nakadashi'' \<notin> set Object_prototype" "''temp bondage'' \<notin> set Object_prototype"
  by (simp_all add: Object_prototype_def)

text \<open>
  What the lookup on a plain object brings with it: for a key that names a property of
  \<^verbatim>\<open>Object.prototype\<close>, such as \<^verbatim>\<open>constructor\<close>, a dictionary without the key gives a
  value that is true as a condition, and the node is rendered from it.
\<close>

lemma translate_inherited_key:
  assumes "alive t service" "translateTag (config service)"
    "m (fullKey t) = None" "fullKey t \<in> set Object_prototype"
  shows "fst (translate t (Some m) service)"
    and "inner (document (snd (translate t (Some m) service)) (node t))
           = InnerHTML (prefixed (original t)
               (markImagesAndEmoji (tagging service) (Inherited (fullKey t))))"
    and "getAttribute (document (snd (translate t (Some m) service))) (node t) ''lang''
           = Some ''cmn-Hans''"
  using assms
  by (simp_all add: translate_def get_property_inherited falsy_def getAttribute_def
      setAttribute_def set_innerHTML_def replace_children_def Let_def)

text \<open>
  C4, as the code has it. \<^verbatim>\<open>translate\<close> decides in this order: a node that is not alive
  is a success and nothing changes; with tag translation switched off the original text
  is put back, \<^verbatim>\<open>lang\<close> becomes \<^verbatim>\<open>en\<close>, success; with no dictionary, failure and nothing
  changes; with a dictionary that has no label for the key, the key being no name of a
  property that every object inherits, failure and nothing changes; with a dictionary
  that has a non-empty label \<open>v\<close> for the key, the element's markup becomes the
  post-processed label (behind the original's one-character prefix, if it had one),
  \<^verbatim>\<open>lang\<close> becomes \<^verbatim>\<open>cmn-Hans\<close>, success.
\<close>

theorem translate_contract:
  "(\<not> alive t service \<longrightarrow> translate t D service = (True, service))
   \<and> (alive t service \<and> \<not> translateTag (config service) \<longrightarrow>
        fst (translate t D service)
        \<and> inner (document (snd (translate t D service)) (node t)) = InnerText (original t)
        \<and> getAttribute (document (snd (translate t D service))) (node t) ''lang'' = Some ''en'')
   \<and> (alive t service \<and> translateTag (config service) \<and> D = None \<longrightarrow>
        translate t D service = (False, service))
   \<and> (alive t service \<and> translateTag (config service) \<and> D = Some m \<and> m (fullKey t) = None
        \<and> fullKey t \<notin> set Object_prototype \<longrightarrow>
        translate t D service = (False, service))
   \<and> (alive t service \<and> translateTag (config service) \<and> D = Some m \<and> m (fullKey t) = Some v
        \<and> v \<noteq> [] \<longrightarrow>
        fst (translate t D service)
        \<and> inner (document (snd (translate t D service)) (node t))
            = InnerHTML (prefixed (original t) (markImagesAndEmoji (tagging service) (Str v)))
        \<and> getAttribute (document (snd (translate t D service))) (node t) ''lang''
            = Some ''cmn-Hans'')"
  by (simp add: translate_def get_property_def falsy_def getAttribute_def setAttribute_def
        set_innerText_def set_innerHTML_def replace_children_def Let_def)

theorem translate_contract_witness:
  "alive nakadashi claimed \<and> translateTag (config claimed)
   \<and> D1 (fullKey nakadashi) = Some ''label one''
   \<and> fst (translate nakadashi (Some D1) claimed)
   \<and> inner (document (snd (translate nakadashi (Some D1) claimed)) 3) = InnerHTML ''label one''
   \<and> getAttribute (document (snd (translate nakadashi (Some D1) claimed))) 3 ''lang''
       = Some ''cmn-Hans''
   \<and> D2 (fullKey nakadashi) = None \<and> fullKey nakadashi \<notin> set Object_prototype
   \<and> translate nakadashi (Some D2) claimed = (False, claimed)
   \<and> translate nakadashi None claimed = (False, claimed)
   \<and> \<not> alive detached claimed
   \<and> translate detached (Some D1) claimed = (True, claimed)
   \<and> alive nakadashi disabled \<and> \<not> translateTag (config disabled)
   \<and> fst (translate nakadashi (Some D1) disabled)
   \<and> inner (document (snd (translate nakadashi (Some D1) disabled)) 3) = InnerText ''nakadashi''
   \<and> getAttribute (document (snd (translate nakadashi (Some D1) disabled))) 3 ''lang''
       = Some ''en''"
proof -
  have a: "alive nakadashi claimed \<and> translateTag (config claimed)"
    by (simp add: claimed_facts)
  have d1: "D1 (fullKey nakadashi) = Some ''label one''" and d2: "D2 (fullKey nakadashi) = None"
    and own: "fullKey nakadashi \<notin> set Object_prototype"
    by (simp_all add: D1_def D2_def claimed_facts tag_keys_not_inherited)
  have dead: "\<not> alive detached claimed"
    by (simp add: detached_def claimed_eq engine_defs alive_def parentElement_def)
  have off: "alive nakadashi disabled \<and> \<not> translateTag (config disabled)"
    by (simp add: disabled_def claimed_eq engine_defs alive_def parentElement_def)
  show ?thesis
    using a d1 d2 own dead off
      translate_contract [of nakadashi claimed "Some D1" D1 "''label one''"]
      translate_contract [of nakadashi claimed "Some D2" D2 "''label one''"]
      translate_contract [of nakadashi claimed None D2 "''label one''"]
      translate_contract [of detached claimed "Some D1" D1 "''label one''"]
      translate_contract [of nakadashi disabled "Some D1" D1 "''label one''"]
    by (simp add: claimed_facts prefixed_def charAt_def)
qed

text \<open>
  C4 as it was claimed says that a dictionary containing the key always leads to the
  substitution. A dictionary that contains the key with the empty label does not: the
  call fails and \<^verbatim>\<open>lang\<close> stays what it was.
\<close>

theorem translate_present_key_counterexample:
  "fullKey nakadashi \<in> dom [''female:nakadashi'' \<mapsto> '''']
   \<and> alive nakadashi claimed \<and> translateTag (config claimed)
   \<and> \<not> fst (translate nakadashi (Some [''female:nakadashi'' \<mapsto> '''']) claimed)
   \<and> getAttribute
        (document (snd (translate nakadashi (Some [''female:nakadashi'' \<mapsto> '''']) claimed))) 3
        ''lang'' \<noteq> Some ''cmn-Hans''"
  by (simp add: translate_def get_property_def falsy_def claimed_facts)

text \<open>
  C7. For every tracked node, every dictionary (or none) and every engine state,
  \<^verbatim>\<open>translate\<close> called a second time returns what the first call returned and leaves the
  engine, with the element's text, \<^verbatim>\<open>lang\<close> and marker, as the first call left it.
\<close>

theorem translate_idempotent:
  "translate t D (snd (translate t D service)) = translate t D service"
  by (simp add: translate_def alive_def Let_def set_innerText_def set_innerHTML_def
      parentElement_replace_children render_twice split: option.splits)

text \<open>
  C10, as the code has it. Let a dictionary map the key of a tracked node to the empty
  string. For a node that is alive, with tag translation on, \<^verbatim>\<open>translate\<close> fails and
  changes nothing. And when the key is no name of a property that every object inherits,
  \<^verbatim>\<open>translate\<close> does with this dictionary exactly what it does with the same dictionary
  without the key, whatever the node and the configuration.
\<close>

theorem translate_empty_label:
  "m (fullKey t) = Some [] \<Longrightarrow>
     (alive t service \<and> translateTag (config service) \<longrightarrow>
        translate t (Some m) service = (False, service))
     \<and> (fullKey t \<notin> set Object_prototype \<longrightarrow>
          translate t (Some m) service = translate t (Some (m(fullKey t := None))) service)"
  by (simp add: translate_def get_property_def falsy_def)

theorem translate_empty_label_witness:
  "[''female:nakadashi'' \<mapsto> ''''] (fullKey nakadashi) = Some []
   \<and> alive nakadashi claimed \<and> translateTag (config claimed)
   \<and> fullKey nakadashi \<notin> set Object_prototype
   \<and> translate nakadashi (Some [''female:nakadashi'' \<mapsto> '''']) claimed = (False, claimed)
   \<and> translate nakadashi (Some [''female:nakadashi'' \<mapsto> '''']) claimed
       = translate nakadashi (Some Map.empty) claimed"
  using translate_empty_label [of "[''female:nakadashi'' \<mapsto> '''']" nakadashi claimed]
  by (auto simp: claimed_facts tag_keys_not_inherited)

text \<open>
  C10 as it was claimed says that the call fails and leaves the rendering for every
  tracked node. With tag translation switched off the call is a success and puts the
  original text back, whatever the dictionary holds for the key.
\<close>

theorem translate_empty_label_counterexample:
  "[''female:nakadashi'' \<mapsto> ''''] (fullKey nakadashi) = Some []
   \<and> alive nakadashi disabled
   \<and> fst (translate nakadashi (Some [''female:nakadashi'' \<mapsto> '''']) disabled)
   \<and> inner (document disabled 3) = Children
   \<and> inner (document (snd (translate nakadashi (Some [''female:nakadashi'' \<mapsto> '''']) disabled)) 3)
       = InnerText ''nakadashi''"
  by (simp add: translate_def disabled_def claimed_eq engine_defs alive_def parentElement_def
      set_innerText_def setAttribute_def replace_children_def)
section \<open>Construction and classification\<close>

lemma construct_parentElement [simp]:
  "parentElement (snd (construct e fk txt d)) x = parentElement d x"
  by (auto simp: construct_def Let_def parentElement_def setAttribute_def hasAttribute_def
      split: option.splits)

lemma construct_hasAttribute:
  "hasAttribute d x a \<Longrightarrow> hasAttribute (snd (construct e fk txt d)) x a"
  by (auto simp: construct_def Let_def setAttribute_def hasAttribute_def)

lemma construct_marker:
  "getAttribute (snd (construct e fk txt d)) e ATTR = Some txt"
  by (auto simp: construct_def Let_def setAttribute_def hasAttribute_def getAttribute_def
      ATTR_def)

lemma construct_Inr:
  "fst (construct e fk txt d) = Inr r \<Longrightarrow> r = \<lparr>node = e, fullKey = fk, original = txt\<rparr>"
  by (auto simp: construct_def Let_def split: if_splits)

lemma construct_ok:
  "ehs (d e) = None \<Longrightarrow>
     fst (construct e fk txt d) = Inr \<lparr>node = e, fullKey = fk, original = txt\<rparr>"
  by (auto simp: construct_def Let_def setAttribute_def)

lemma create_frame:
  "snd (create n s) = s\<lparr>document := document (snd (create n s))\<rparr>"
  by (simp add: create_def Let_def split: option.splits prod.splits sum.splits)

lemma create_fields [simp]:
  "tags (snd (create n s)) = tags s"
  "config (snd (create n s)) = config s"
  "tagging (snd (create n s)) = tagging s"
  "tagMap (snd (create n s)) = tagMap s"
  "storage (snd (create n s)) = storage s"
  "suspended (snd (create n s)) = suspended s"
  "updatingTagMap (snd (create n s)) = updatingTagMap s"
  "emitted (snd (create n s)) = emitted s"
  by (simp_all add: create_def Let_def split: option.splits prod.splits sum.splits)

lemma create_document:
  "document (snd (create n s)) = document s
   \<or> (\<exists>pe fk. parentElement (document s) n = Some pe
        \<and> document (snd (create n s))
            = snd (construct pe fk (textContent (document s n)) (document s)))"
  by (auto simp: create_def Let_def split: option.splits prod.splits sum.splits)
    (metis snd_conv)+

lemma create_parentElement [simp]:
  "parentElement (document (snd (create n s))) x = parentElement (document s) x"
  using create_document [of n s] by auto

lemma create_hasAttribute:
  "hasAttribute (document s) x a \<Longrightarrow> hasAttribute (document (snd (create n s))) x a"
  using create_document [of n s] by (auto simp: construct_hasAttribute)

lemma create_Ref:
  assumes "create n s = (Inr (Ref r), s')"
  shows "parentElement (document s) n = Some (node r)"
    and "\<not> hasAttribute (document s) (node r) ATTR"
    and "getAttribute (document s') (node r) ATTR = Some (original r)"
    and "original r = textContent (document s n)"
proof -
  from assms obtain pe fk where
    pe: "parentElement (document s) n = Some pe" and
    un: "\<not> hasAttribute (document s) pe ATTR" and
    c: "construct pe fk (textContent (document s n)) (document s) = (Inr r, document s')"
    by (auto simp: create_def Let_def split: option.splits prod.splits sum.splits if_splits)
  from c have r: "r = \<lparr>node = pe, fullKey = fk, original = textContent (document s n)\<rparr>"
    using construct_Inr [of pe fk "textContent (document s n)" "document s" r] by simp
  from r pe show "parentElement (document s) n = Some (node r)" by simp
  from r un show "\<not> hasAttribute (document s) (node r) ATTR" by simp
  from r show "original r = textContent (document s n)" by simp
  from c r show "getAttribute (document s') (node r) ATTR = Some (original r)"
    using construct_marker [of pe fk "textContent (document s n)" "document s"] by simp
qed

lemma create_claimed:
  "parentElement (document s) n = Some pe \<Longrightarrow> hasAttribute (document s) pe ATTR \<Longrightarrow>
     create n s = (Inr (Bool True), s)"
  by (simp add: create_def)

lemma registry_ok_translate:
  "registry_ok s \<Longrightarrow> registry_ok (snd (translate t D s))"
  by (auto simp: registry_ok_def list_all_iff translate_hasAttribute)

lemma registry_ok_forEach:
  "registry_ok s \<Longrightarrow> registry_ok (forEach_translate ts D s)"
  by (auto simp: registry_ok_def list_all_iff forEach_hasAttribute)

lemma registry_ok_translateTags:
  "registry_ok s \<Longrightarrow> registry_ok (translateTags D s)"
  unfolding translateTags_def Let_def
  by (rule registry_ok_forEach) (auto simp: registry_ok_def list_all_iff distinct_map_filter)

lemma registry_ok_create:
  "registry_ok s \<Longrightarrow> registry_ok (snd (create n s))"
  by (auto simp: registry_ok_def list_all_iff create_hasAttribute)

lemma registry_ok_Syringe_translateTag:
  assumes "registry_ok s"
  shows "registry_ok (snd (Syringe_translateTag n s))"
proof (cases "create n s")
  case (Pair res s1)
  have ok1: "registry_ok s1" using registry_ok_create [OF assms, of n] Pair by simp
  show ?thesis
  proof (cases res)
    case (Inl ex)
    with Pair ok1 assms show ?thesis
      by (simp add: Syringe_translateTag_def split: option.splits)
  next
    case (Inr c)
    show ?thesis
    proof (cases c)
      case (Bool b)
      with Inr Pair ok1 assms show ?thesis
        by (simp add: Syringe_translateTag_def split: option.splits)
    next
      case (Ref r)
      with Inr Pair have c: "create n s = (Inr (Ref r), s1)" by simp
      have fresh: "\<not> hasAttribute (document s) (node r) ATTR" by (rule create_Ref(2) [OF c])
      have marked: "hasAttribute (document s1) (node r) ATTR"
        using create_Ref(3) [OF c] by (simp add: hasAttribute_def getAttribute_def)
      have tg: "tags s1 = tags s" using create_fields(1) [of n s] c by simp
      from fresh assms have new: "node r \<notin> node ` set (tags s)"
        by (auto simp: registry_ok_def list_all_iff)
      let ?s2 = "snd (translate r (tagMap s1) s1)"
      have "registry_ok (?s2\<lparr>tags := tags ?s2 @ [r]\<rparr>)"
        using ok1 new tg marked
        by (auto simp: registry_ok_def list_all_iff translate_hasAttribute)
      with c assms show ?thesis
        by (simp add: Syringe_translateTag_def Let_def split: option.splits)
    qed
  qed
qed

lemma fullKeyCandidate_title:
  "fullKeyCandidate tg aId ''female:nakadashi''
     = Some (tagging_fullKey tg \<lparr>namespace = ''female'', key = Some ''nakadashi''\<rparr>)"
  by (simp add: fullKeyCandidate_def destructure2_def)

lemma fullKeyCandidate_id:
  "fullKeyCandidate tg ''ta_temp_bondage'' []
     = Some (tagging_fullKey tg \<lparr>namespace = [], key = Some ''temp bondage''\<rparr>)"
  by (simp add: fullKeyCandidate_def destructure2_def startsWith_def underscores_to_spaces_def)

lemma create_fresh:
  assumes "parentElement (document s) n = Some pe" "\<not> hasAttribute (document s) pe ATTR"
    "ehs (document s pe) = None"
    "fullKeyCandidate (tagging s) (reflected (document s) pe ''id'')
       (reflected (document s) pe ''title'') = Some K" "K \<noteq> []"
  shows "fst (create n s)
           = Inr (Ref \<lparr>node = pe, fullKey = K, original = textContent (document s n)\<rparr>)"
proof -
  have "ehs (setAttribute pe ''lang'' ''en''
              (setAttribute pe ATTR (textContent (document s n)) (document s)) pe) = None"
    using assms(3) by (simp add: setAttribute_def)
  then show ?thesis using assms
    by (simp add: create_def construct_def Let_def)
qed

lemma Syringe_translateTag_fresh:
  assumes "nodeType (document s n) = TEXT_NODE" "parentElement (document s) n = Some pe"
    "isTagContainer (document s) (Some pe)"
    "nodeName (document s pe) \<noteq> ''MARK''"
    "''auto-complete-text'' \<notin> set (classList (document s pe))"
    "fst (create n s) = Inr (Ref r)"
  shows "fst (Syringe_translateTag n s) = Inr True"
    and "tags (snd (Syringe_translateTag n s)) = tags s @ [r]"
proof -
  obtain s1 where c: "create n s = (Inr (Ref r), s1)"
    using assms(6) by (cases "create n s") simp
  have "tags s1 = tags s" using create_fields(1) [of n s] c by simp
  with c assms show "fst (Syringe_translateTag n s) = Inr True"
    and "tags (snd (Syringe_translateTag n s)) = tags s @ [r]"
    by (simp_all add: Syringe_translateTag_def Let_def)
qed

lemma both_D1_eq:
  "both_D1 = rendered_D1\<lparr>document := (document rendered_D1)(5 := (document engine 5)\<lparr>
        attributes := [''id'' \<mapsto> ''ta_temp_bondage'', ''ehs-tag'' \<mapsto> ''temp bondage'',
                       ''lang'' \<mapsto> ''en'', ''title'' \<mapsto> ''temp bondage''],
        ehs := Some bondage\<rparr>), tags := [nakadashi, bondage]\<rparr>"
  by (simp add: both_D1_def rendered_D1_eq engine_defs op_defs bondage_def Let_def)

lemma both_D1_facts:
  "tags both_D1 = [nakadashi, bondage]" "translateTag (config both_D1)"
  "alive nakadashi both_D1" "alive bondage both_D1"
  "node bondage = 5" "fullKey bondage = ''temp bondage''" "original bondage = ''temp bondage''"
  "markImagesAndEmoji (tagging both_D1) (Str v) = v"
  "inner (document both_D1 3) = InnerHTML ''label one''"
  by (simp_all add: both_D1_eq rendered_D1_eq engine_defs bondage_def alive_def parentElement_def
      as_markup_def)

lemma classified_again:
  "tags (fold (\<lambda>n s. snd (Syringe_translateTag n s)) [4, 6, 4] engine) = [nakadashi, bondage]"
proof -
  have 1: "snd (Syringe_translateTag 4 engine) = claimed" by (simp add: claimed_def)
  have 2: "tags (snd (Syringe_translateTag 6 claimed)) = [nakadashi, bondage]"
    "parentElement (document (snd (Syringe_translateTag 6 claimed))) 4 = Some 3"
    "hasAttribute (document (snd (Syringe_translateTag 6 claimed))) 3 ATTR"
    "nodeType (document (snd (Syringe_translateTag 6 claimed)) 4) = TEXT_NODE"
    "nodeName (document (snd (Syringe_translateTag 6 claimed)) 3) = ''DIV''"
    "classList (document (snd (Syringe_translateTag 6 claimed)) 3) = [''gt'']"
    by (simp_all add: claimed_eq engine_defs op_defs bondage_def Let_def)
  have 3: "snd (Syringe_translateTag 4 (snd (Syringe_translateTag 6 claimed)))
            = snd (Syringe_translateTag 6 claimed)"
    using 2 by (simp add: Syringe_translateTag_def create_def isTagContainer_def)
  show ?thesis by (simp add: 1 3 2(1))
qed

text \<open>
  C5. A classification attempt on a text node whose parent element carries the marker
  attribute returns \<^verbatim>\<open>true\<close> (CLAIMED) and changes nothing. Whenever \<^verbatim>\<open>create\<close> returns
  a reference, its element is the parent of the text node and carries, from then on, the
  marker attribute with the original text, so that every later attempt on a text node
  below that element returns CLAIMED. Hence a registry in which no two references own the
  same element and every owned element is marked stays so through every re-translation
  pass and every sequence of classification attempts.
\<close>

theorem create_claims_once:
  "(parentElement (document s) n = Some pe \<and> hasAttribute (document s) pe ATTR \<longrightarrow>
      create n s = (Inr (Bool True), s))
   \<and> (create n s = (Inr (Ref r), s') \<longrightarrow>
        parentElement (document s) n = Some (node r)
        \<and> getAttribute (document s') (node r) ATTR = Some (original r)
        \<and> original r = textContent (document s n)
        \<and> (\<forall>n'. parentElement (document s') n' = Some (node r) \<longrightarrow>
               create n' s' = (Inr (Bool True), s')))
   \<and> (registry_ok s \<longrightarrow>
        registry_ok (translateTags D s)
        \<and> registry_ok (fold (\<lambda>n s. snd (Syringe_translateTag n s)) ns s))"
proof (intro conjI impI)
  assume "parentElement (document s) n = Some pe \<and> hasAttribute (document s) pe ATTR"
  then show "create n s = (Inr (Bool True), s)" by (simp add: create_claimed)
next
  assume c: "create n s = (Inr (Ref r), s')"
  show "parentElement (document s) n = Some (node r)" by (rule create_Ref(1) [OF c])
  show m: "getAttribute (document s') (node r) ATTR = Some (original r)"
    by (rule create_Ref(3) [OF c])
  show "original r = textContent (document s n)" by (rule create_Ref(4) [OF c])
  from m have "hasAttribute (document s') (node r) ATTR"
    by (simp add: hasAttribute_def getAttribute_def)
  then show "\<forall>n'. parentElement (document s') n' = Some (node r) \<longrightarrow>
               create n' s' = (Inr (Bool True), s')"
    by (simp add: create_claimed)
next
  assume "registry_ok s"
  then show "registry_ok (translateTags D s)" by (rule registry_ok_translateTags)
next
  assume "registry_ok s"
  then show "registry_ok (fold (\<lambda>n s. snd (Syringe_translateTag n s)) ns s)"
    by (induction ns arbitrary: s) (simp_all add: registry_ok_Syringe_translateTag)
qed

theorem create_claims_once_witness:
  "create 4 engine = (Inr (Ref nakadashi), snd (create 4 engine))
   \<and> getAttribute (document (snd (create 4 engine))) (node nakadashi) ATTR
       = Some (original nakadashi)
   \<and> parentElement (document (snd (create 4 engine))) 4 = Some (node nakadashi)
   \<and> create 4 (snd (create 4 engine)) = (Inr (Bool True), snd (create 4 engine))
   \<and> parentElement (document claimed) 4 = Some 3 \<and> hasAttribute (document claimed) 3 ATTR
   \<and> create 4 claimed = (Inr (Bool True), claimed)
   \<and> registry_ok engine
   \<and> registry_ok (translateTags (Some D1) engine)
   \<and> registry_ok (fold (\<lambda>n s. snd (Syringe_translateTag n s)) [4, 6, 4] engine)
   \<and> tags (fold (\<lambda>n s. snd (Syringe_translateTag n s)) [4, 6, 4] engine)
       = [nakadashi, bondage]"
proof -
  have c: "create 4 engine = (Inr (Ref nakadashi), snd (create 4 engine))"
    by (simp add: engine_defs op_defs Let_def)
  have "parentElement (document engine) 4 = Some 3"
    by (simp add: engine_defs parentElement_def)
  then have q: "parentElement (document (snd (create 4 engine))) 4 = Some (node nakadashi)"
    by (simp add: nakadashi_def)
  have p: "parentElement (document claimed) 4 = Some 3 \<and> hasAttribute (document claimed) 3 ATTR"
    by (simp add: claimed_eq engine_defs parentElement_def hasAttribute_def ATTR_def)
  have r: "registry_ok engine" by (simp add: registry_ok_def engine_def)
  note T1 = create_claims_once [of engine 4 3 nakadashi "snd (create 4 engine)" "Some D1"
      "[4, 6, 4]"]
  note T2 = create_claims_once [of claimed 4 3 nakadashi claimed "Some D1" "[]"]
  from T1 c q r T2 p classified_again show ?thesis by blast
qed

text \<open>
  C8. Let a text node have a parent element that is not yet claimed. If the parent's title
  is \<^verbatim>\<open>female:nakadashi\<close>, the key handed to \<^verbatim>\<open>fullKey\<close> is the TagKey with namespace
  \<^verbatim>\<open>female\<close> and key \<^verbatim>\<open>nakadashi\<close>; if it has no title and the id \<^verbatim>\<open>ta_temp_bondage\<close>,
  it is the TagKey with the empty namespace and key \<^verbatim>\<open>temp bondage\<close>. In both cases,
  when \<^verbatim>\<open>fullKey\<close> serialises that TagKey to a non-empty string \<open>K\<close>, \<^verbatim>\<open>create\<close>
  returns the reference with the full key \<open>K\<close>. A parent of class \<^verbatim>\<open>gt\<close> is a tag
  container, and for a text node below a tag container (no search hint) \<^verbatim>\<open>translateTag\<close>
  registers the reference that \<^verbatim>\<open>create\<close> returns.
\<close>

theorem key_derivation:
  assumes "parentElement (document s) n = Some pe"
    and "\<not> hasAttribute (document s) pe ATTR" and "ehs (document s pe) = None"
  shows "(reflected (document s) pe ''title'' = ''female:nakadashi''
        \<and> K = tagging_fullKey (tagging s) \<lparr>namespace = ''female'', key = Some ''nakadashi''\<rparr>
        \<and> K \<noteq> [] \<longrightarrow>
          fst (create n s)
            = Inr (Ref \<lparr>node = pe, fullKey = K, original = textContent (document s n)\<rparr>))
    \<and> (reflected (document s) pe ''title'' = []
        \<and> reflected (document s) pe ''id'' = ''ta_temp_bondage''
        \<and> K = tagging_fullKey (tagging s) \<lparr>namespace = [], key = Some ''temp bondage''\<rparr>
        \<and> K \<noteq> [] \<longrightarrow>
          fst (create n s)
            = Inr (Ref \<lparr>node = pe, fullKey = K, original = textContent (document s n)\<rparr>))
    \<and> (''gt'' \<in> set (classList (document s pe)) \<longrightarrow> isTagContainer (document s) (Some pe))
    \<and> (nodeType (document s n) = TEXT_NODE \<and> isTagContainer (document s) (Some pe)
        \<and> nodeName (document s pe) \<noteq> ''MARK''
        \<and> ''auto-complete-text'' \<notin> set (classList (document s pe))
        \<and> fst (create n s) = Inr (Ref r) \<longrightarrow>
          fst (Syringe_translateTag n s) = Inr True
          \<and> tags (snd (Syringe_translateTag n s)) = tags s @ [r])"
proof -
  let ?r = "\<lparr>node = pe, fullKey = K, original = textContent (document s n)\<rparr>"
  have tc: "isTagContainer (document s) (Some pe)" if "''gt'' \<in> set (classList (document s pe))"
    using that by (simp add: isTagContainer_def)
  have reg: "fst (Syringe_translateTag n s) = Inr True
      \<and> tags (snd (Syringe_translateTag n s)) = tags s @ [r]"
    if "nodeType (document s n) = TEXT_NODE" "isTagContainer (document s) (Some pe)"
      "nodeName (document s pe) \<noteq> ''MARK''"
      "''auto-complete-text'' \<notin> set (classList (document s pe))"
      "fst (create n s) = Inr (Ref r)"
    using Syringe_translateTag_fresh [OF that(1) assms(1) that(2,3,4,5)] by simp
  have title: "fst (create n s) = Inr (Ref ?r)"
    if "reflected (document s) pe ''title'' = ''female:nakadashi''"
      "K = tagging_fullKey (tagging s) \<lparr>namespace = ''female'', key = Some ''nakadashi''\<rparr>"
      "K \<noteq> []"
    using that by (intro create_fresh [OF assms]) (simp_all add: fullKeyCandidate_title)
  have ident: "fst (create n s) = Inr (Ref ?r)"
    if "reflected (document s) pe ''title'' = []"
      "reflected (document s) pe ''id'' = ''ta_temp_bondage''"
      "K = tagging_fullKey (tagging s) \<lparr>namespace = [], key = Some ''temp bondage''\<rparr>"
      "K \<noteq> []"
    using that by (intro create_fresh [OF assms]) (simp_all add: fullKeyCandidate_id)
  show ?thesis using tc reg title ident by blast
qed

theorem key_derivation_witness:
  "nodeType (document engine 4) = TEXT_NODE \<and> parentElement (document engine) 4 = Some 3
   \<and> ''gt'' \<in> set (classList (document engine 3))
   \<and> reflected (document engine) 3 ''title'' = ''female:nakadashi''
   \<and> fst (create 4 engine)
       = Inr (Ref \<lparr>node = 3, fullKey = ''female:nakadashi'', original = ''nakadashi''\<rparr>)
   \<and> tags (snd (Syringe_translateTag 4 engine))
       = [\<lparr>node = 3, fullKey = ''female:nakadashi'', original = ''nakadashi''\<rparr>]
   \<and> nodeType (document engine 6) = TEXT_NODE \<and> parentElement (document engine) 6 = Some 5
   \<and> ''gt'' \<in> set (classList (document engine 5))
   \<and> reflected (document engine) 5 ''title'' = []
   \<and> reflected (document engine) 5 ''id'' = ''ta_temp_bondage''
   \<and> fst (create 6 engine)
       = Inr (Ref \<lparr>node = 5, fullKey = ''temp bondage'', original = ''temp bondage''\<rparr>)
   \<and> tags (snd (Syringe_translateTag 6 engine))
       = [\<lparr>node = 5, fullKey = ''temp bondage'', original = ''temp bondage''\<rparr>]"
proof -
  have a: "parentElement (document engine) 4 = Some 3"
    "\<not> hasAttribute (document engine) 3 ATTR" "ehs (document engine 3) = None"
    by (simp_all add: engine_defs parentElement_def hasAttribute_def ATTR_def)
  have a': "nodeType (document engine 4) = TEXT_NODE"
    "''gt'' \<in> set (classList (document engine 3))" "nodeName (document engine 3) \<noteq> ''MARK''"
    "''auto-complete-text'' \<notin> set (classList (document engine 3))"
    by (simp_all add: engine_defs)
  have b: "parentElement (document engine) 6 = Some 5"
    "\<not> hasAttribute (document engine) 5 ATTR" "ehs (document engine 5) = None"
    by (simp_all add: engine_defs parentElement_def hasAttribute_def ATTR_def)
  have b': "nodeType (document engine 6) = TEXT_NODE"
    "''gt'' \<in> set (classList (document engine 5))" "nodeName (document engine 5) \<noteq> ''MARK''"
    "''auto-complete-text'' \<notin> set (classList (document engine 5))"
    by (simp_all add: engine_defs)
  have e: "reflected (document engine) 3 ''title'' = ''female:nakadashi''"
    "reflected (document engine) 5 ''title'' = []"
    "reflected (document engine) 5 ''id'' = ''ta_temp_bondage''"
    "tagging_fullKey (tagging engine) \<lparr>namespace = ''female'', key = Some ''nakadashi''\<rparr>
       = ''female:nakadashi''"
    "tagging_fullKey (tagging engine) \<lparr>namespace = [], key = Some ''temp bondage''\<rparr>
       = ''temp bondage''"
    "textContent (document engine 4) = ''nakadashi''"
    "textContent (document engine 6) = ''temp bondage''"
    "tags engine = []"
    by (simp_all add: engine_defs reflected_def)
  show ?thesis
    using a(1) a' b(1) b' e(1,2,3)
      key_derivation [OF a, of "''female:nakadashi''"
        "\<lparr>node = 3, fullKey = ''female:nakadashi'', original = ''nakadashi''\<rparr>"]
      key_derivation [OF b, of "''temp bondage''"
        "\<lparr>node = 5, fullKey = ''temp bondage'', original = ''temp bondage''\<rparr>"]
    by (simp add: e)
qed
section \<open>Re-translating the registry\<close>

text \<open>
  C2, as the code has it. In a registry whose references own distinct elements, with tag
  translation on, run \<^verbatim>\<open>translateTags(D)\<close>. Every tracked node that is alive after the
  pass is still registered, \<open>D\<close> is the current dictionary, and the node's element shows
  the post-processed label of \<open>D\<close> (with \<^verbatim>\<open>lang\<close> \<^verbatim>\<open>cmn-Hans\<close>) when \<open>D\<close> has a non-empty
  label for its key; when \<open>D\<close> has the empty label, or has none and the key is no name of
  a property that every object inherits, the element is exactly as it was before the
  pass.
\<close>

theorem translateTags_renders:
  assumes "distinct (map node (tags s))" and "translateTag (config s)"
    and "t \<in> set (tags s)" and "alive t (translateTags (Some D) s)"
  shows "t \<in> set (tags (translateTags (Some D) s))
    \<and> tagMap (translateTags (Some D) s) = Some D
    \<and> (case D (fullKey t) of
          None \<Rightarrow>
            fullKey t \<notin> set Object_prototype \<longrightarrow>
              document (translateTags (Some D) s) (node t) = document s (node t)
        | Some v \<Rightarrow>
            if v = [] then document (translateTags (Some D) s) (node t) = document s (node t)
            else inner (document (translateTags (Some D) s) (node t))
                   = InnerHTML (prefixed (original t) (markImagesAndEmoji (tagging s) (Str v)))
                 \<and> getAttribute (document (translateTags (Some D) s)) (node t) ''lang''
                   = Some ''cmn-Hans'')"
proof -
  let ?ts = "filter (\<lambda>t. alive t s) (tags s)"
  let ?s2 = "s\<lparr>tags := ?ts, tagMap := Some D\<rparr>"
  have eq: "translateTags (Some D) s = forEach_translate ?ts (Some D) ?s2"
    by (simp add: translateTags_def Let_def nullish_def)
  have after: "alive t (forEach_translate ?ts (Some D) ?s2)" using assms(4) by (simp add: eq)
  then have al: "alive t ?s2" by (rule forEach_alive_mono)
  then have "alive t s" by (simp add: alive_def)
  then have mem: "t \<in> set ?ts" using assms(3) by simp
  have dist: "distinct (map node ?ts)" using assms(1) by (simp add: distinct_map_filter)
  have at: "document (translateTags (Some D) s) (node t)
              = document (snd (translate t (Some D) ?s2)) (node t)"
    unfolding eq by (rule forEach_at [OF dist mem after])
  have "t \<in> set (tags (translateTags (Some D) s))" using mem by (simp add: eq)
  moreover have "tagMap (translateTags (Some D) s) = Some D" by (simp add: eq)
  moreover have "case D (fullKey t) of
          None \<Rightarrow>
            fullKey t \<notin> set Object_prototype \<longrightarrow>
              document (translateTags (Some D) s) (node t) = document s (node t)
        | Some v \<Rightarrow>
            if v = [] then document (translateTags (Some D) s) (node t) = document s (node t)
            else inner (document (translateTags (Some D) s) (node t))
                   = InnerHTML (prefixed (original t) (markImagesAndEmoji (tagging s) (Str v)))
                 \<and> getAttribute (document (translateTags (Some D) s)) (node t) ''lang''
                   = Some ''cmn-Hans''"
    unfolding getAttribute_def at using al assms(2)
    by (simp add: translate_def get_property_def falsy_def Let_def setAttribute_def
        set_innerHTML_def replace_children_self split: option.splits)
  ultimately show ?thesis by blast
qed

theorem translateTags_renders_witness:
  "distinct (map node (tags both_D1)) \<and> translateTag (config both_D1)
   \<and> bondage \<in> set (tags both_D1) \<and> alive bondage (translateTags (Some D2) both_D1)
   \<and> D2 (fullKey bondage) = Some ''label two''
   \<and> inner (document (translateTags (Some D2) both_D1) 5) = InnerHTML ''label two''
   \<and> getAttribute (document (translateTags (Some D2) both_D1)) 5 ''lang'' = Some ''cmn-Hans''
   \<and> nakadashi \<in> set (tags both_D1) \<and> alive nakadashi (translateTags (Some D2) both_D1)
   \<and> D2 (fullKey nakadashi) = None \<and> fullKey nakadashi \<notin> set Object_prototype
   \<and> document (translateTags (Some D2) both_D1) 3 = document both_D1 3"
proof -
  have d: "distinct (map node (tags both_D1))" and c: "translateTag (config both_D1)"
    and b: "bondage \<in> set (tags both_D1)" and n: "nakadashi \<in> set (tags both_D1)"
    by (simp_all add: both_D1_facts claimed_facts)
  have ab: "alive bondage (translateTags (Some D2) both_D1)"
    and an: "alive nakadashi (translateTags (Some D2) both_D1)"
    by (simp_all add: translateTags_def nullish_def Let_def both_D1_eq rendered_D1_eq
        engine_defs bondage_def op_defs)
  have k: "D2 (fullKey bondage) = Some ''label two''" "D2 (fullKey nakadashi) = None"
    "fullKey nakadashi \<notin> set Object_prototype"
    by (simp_all add: D2_def both_D1_facts claimed_facts tag_keys_not_inherited)
  show ?thesis
    using d c b n ab an k translateTags_renders [OF d c b ab]
      translateTags_renders [OF d c n an]
    by (simp add: both_D1_facts claimed_facts prefixed_def charAt_def)
qed

text \<open>
  C2 as it was claimed says that a node whose key the new dictionary lacks falls back to
  its original text, and that nothing of the old dictionary stays visible. A node
  rendered under \<open>D1\<close> whose key \<open>D2\<close> lacks still shows the label of \<open>D1\<close> after
  \<^verbatim>\<open>translateTags(D2)\<close>.
\<close>

theorem translateTags_stale_counterexample:
  "nakadashi \<in> set (tags (translateTags (Some D2) rendered_D1))
   \<and> alive nakadashi (translateTags (Some D2) rendered_D1)
   \<and> D1 (fullKey nakadashi) = Some ''label one''
   \<and> D2 (fullKey nakadashi) = None
   \<and> original nakadashi = ''nakadashi''
   \<and> inner (document (translateTags (Some D2) rendered_D1) (node nakadashi))
       = InnerHTML ''label one''"
  by (simp add: translateTags_def nullish_def Let_def rendered_D1_eq engine_defs alive_def
      parentElement_def translate_def get_property_def falsy_def Object_prototype_def)
section \<open>The refresh: one request in flight, failures leave the cache alone\<close>

lemma translateTags_fields [simp]:
  "storage (translateTags D s) = storage s"
  "suspended (translateTags D s) = suspended s"
  "updatingTagMap (translateTags D s) = updatingTagMap s"
  "emitted (translateTags D s) = emitted s"
  "logger (translateTags D s) = logger s"
  "promises (translateTags D s) = promises s"
  by (simp_all add: translateTags_def Let_def)

lemma translateTags_tagMap:
  "tagMap (translateTags (Some tm) s) = Some tm"
  by (simp add: translateTags_def Let_def nullish_def)

lemma finally_block_fields [simp]:
  "storage (finally_block m s) = storage s"
  "suspended (finally_block m s) = suspended s"
  "emitted (finally_block m s) = emitted s"
  "document (finally_block m s) = document s"
  "tags (finally_block m s) = tags s"
  "tagMap (finally_block m s) = tagMap s"
  "logger (finally_block m s) = logger s @ [TimerEnd]"
  "promises (finally_block m s) = promises s"
  "updatingTagMap (finally_block m s) = (if updatingTagMap s = m then None else updatingTagMap s)"
  by (simp_all add: finally_block_def Let_def)

lemma catch_block_fields [simp]:
  "storage (catch_block ex s) = storage s"
  "suspended (catch_block ex s) = suspended s"
  "emitted (catch_block ex s) = emitted s"
  "document (catch_block ex s) = document s"
  "tags (catch_block ex s) = tags s"
  "tagMap (catch_block ex s) = tagMap s"
  "logger (catch_block ex s) = logger s @ [LogError ex]"
  "promises (catch_block ex s) = promises s"
  "updatingTagMap (catch_block ex s) = updatingTagMap s"
  by (simp_all add: catch_block_def)

lemma build_tagMap_Inl:
  "build_tagMap es m = Inl ex \<Longrightarrow> ex = TypeError \<and> None \<in> snd ` set es"
  by (induction es m rule: build_tagMap.induct) auto

lemma build_tagMap_Inr:
  "build_tagMap es m = Inr tm \<Longrightarrow> None \<notin> snd ` set es"
  by (induction es m rule: build_tagMap.induct) auto

lemma try_block_Inl:
  "(\<exists>ex. try_block r s = Inl ex) = request_or_decoding_fails r"
  by (auto simp: try_block_def request_or_decoding_fails_def
      dest: build_tagMap_Inl build_tagMap_Inr
      split: response.splits option.splits sum.splits)

lemma try_block_fields:
  "try_block r s = Inr s1 \<Longrightarrow>
     suspended s1 = suspended s \<and> updatingTagMap s1 = updatingTagMap s
     \<and> emitted s1 = emitted s \<and> promises s1 = promises s"
  by (auto simp: try_block_def Let_def split: response.splits option.splits sum.splits)

lemma resume_fields [simp]:
  "suspended (resume p r s) = suspended s"
  "emitted (resume p r s) = emitted s"
  "promises (resume p r s) = promises s"
  "updatingTagMap (resume p r s) = (if updatingTagMap s = Some p then None else updatingTagMap s)"
  by (auto simp: resume_def dest: try_block_fields split: sum.splits)

lemma updateTagMap_busy:
  "updatingTagMap s \<noteq> None \<Longrightarrow> updateTagMap eo s = s"
  by (simp add: updateTagMap_def)

lemma guarded_idle:
  "guarded s \<Longrightarrow> updatingTagMap s = None \<Longrightarrow> suspended s = []"
  by (auto simp: guarded_def split: list.splits)

lemma guarded_updateTagMap:
  "guarded s \<Longrightarrow> guarded (updateTagMap eo s)"
  by (cases eo) (auto simp: updateTagMap_def Let_def guarded_def split: list.splits)

lemma Syringe_translateTag_fields [simp]:
  "suspended (snd (Syringe_translateTag n s)) = suspended s"
  "updatingTagMap (snd (Syringe_translateTag n s)) = updatingTagMap s"
  "emitted (snd (Syringe_translateTag n s)) = emitted s"
proof -
  obtain res s1 where c: "create n s = (res, s1)" by (cases "create n s")
  then have "suspended s1 = suspended s" "updatingTagMap s1 = updatingTagMap s"
    "emitted s1 = emitted s"
    using create_fields(6,7,8) [of n s] by simp_all
  with c show "suspended (snd (Syringe_translateTag n s)) = suspended s"
    "updatingTagMap (snd (Syringe_translateTag n s)) = updatingTagMap s"
    "emitted (snd (Syringe_translateTag n s)) = emitted s"
    by (simp_all add: Syringe_translateTag_def Let_def
        split: option.splits sum.splits created.splits)
qed

lemma guarded_fire:
  "guarded s \<Longrightarrow> guarded (fire e s)"
proof (cases e)
  case (Trigger eo)
  assume "guarded s"
  with Trigger show ?thesis by (simp add: guarded_updateTagMap)
next
  case (Settle p r)
  assume g: "guarded s"
  show ?thesis
  proof (cases "p \<in> set (suspended s)")
    case True
    with g have "suspended s = [p]" by (auto simp: guarded_def split: list.splits)
    with Settle show ?thesis by (simp add: guarded_def)
  next
    case False
    with Settle g show ?thesis by simp
  qed
next
  case (Classify n)
  assume "guarded s"
  with Classify show ?thesis by (simp add: guarded_def split: list.splits)
next
  case Retranslate
  assume "guarded s"
  with Retranslate show ?thesis by (simp add: guarded_def split: list.splits)
qed

lemma guarded_run:
  "guarded s \<Longrightarrow> guarded (run es s)"
  by (induction es arbitrary: s) (simp_all add: guarded_fire)

lemma guarded_length:
  "guarded s \<Longrightarrow> length (suspended s) \<le> 1"
  by (auto simp: guarded_def split: list.splits)

lemma guarded_busy:
  "guarded s \<Longrightarrow> suspended s \<noteq> [] \<Longrightarrow> updatingTagMap s \<noteq> None"
  by (auto simp: guarded_def split: list.splits)

lemma updateTagMap_sets_guard:
  "updatingTagMap (updateTagMap eo s) \<noteq> None"
  by (cases eo) (simp_all add: updateTagMap_def Let_def)

lemma updateTagMap_emitted:
  "updatingTagMap s = None \<Longrightarrow>
     emitted (updateTagMap eo s) = emitted s @ [\<lparr>ifNotMatch = databaseSha (storage s)\<rparr>]"
  by (cases eo) (simp_all add: updateTagMap_def Let_def)

lemma triggers_busy:
  "updatingTagMap s \<noteq> None \<Longrightarrow> run (map Trigger eos) s = s"
  by (induction eos) (simp_all add: updateTagMap_busy)

lemma updateTagMap_keeps:
  "storage (updateTagMap eo s) = storage s" "document (updateTagMap eo s) = document s"
  "tags (updateTagMap eo s) = tags s" "tagMap (updateTagMap eo s) = tagMap s"
  by (cases eo; simp add: updateTagMap_def Let_def)+

lemma resume_failure:
  "try_block r s = Inl ex \<Longrightarrow> resume p r s = finally_block (Some p) (catch_block ex s)"
  by (simp add: resume_def)

lemma resume_success:
  assumes "r = Resolved (Some d)" "data_map d = Some es" "build_tagMap es Map.empty = Inr tm"
  shows "storage (resume p r s) = \<lparr>databaseMap = Some tm, databaseSha = Some (data_sha d)\<rparr>"
    and "document (resume p r s) = document (translateTags (Some tm) s)"
    and "tags (resume p r s) = tags (translateTags (Some tm) s)"
    and "tagMap (resume p r s) = Some tm"
    and "logger (resume p r s) = logger s @ [LogUpdated (data_sha d), TimerEnd]"
  using assms by (simp_all add: resume_def try_block_def Let_def translateTags_tagMap)

lemma resume_unchanged:
  assumes "r = Resolved (Some d)" "data_map d = None"
  shows "storage (resume p r s) = storage s" "document (resume p r s) = document s"
    "tags (resume p r s) = tags s" "tagMap (resume p r s) = tagMap s"
  using assms by (simp_all add: resume_def try_block_def)

lemma waiting_eq:
  "waiting = engine\<lparr>logger := [TimerStart], emitted := [\<lparr>ifNotMatch = None\<rparr>],
      updatingTagMap := Some 0, suspended := [0], promises := Suc 0\<rparr>"
  by (simp add: waiting_def updateTagMap_def engine_def Let_def)

text \<open>
  C1. Start from an engine whose in-flight guard covers the waiting refresh, if there is
  one (at construction none waits). After every sequence of triggers and settlements,
  with classifications and re-translations in between, at most one refresh waits for the
  provider. A call of \<^verbatim>\<open>updateTagMap\<close> made while one
  waits, or while the guard is set, returns the engine unchanged: no request, no second
  waiting body. And when the guard is clear, a call followed by any number of further
  calls adds exactly one request to those handed to the provider.
\<close>

theorem refresh_single_flight:
  assumes "guarded s"
  shows "guarded (run evs s) \<and> length (suspended (run evs s)) \<le> 1
    \<and> (suspended (run evs s) \<noteq> [] \<longrightarrow> updateTagMap eo (run evs s) = run evs s)
    \<and> (updatingTagMap (run evs s) \<noteq> None \<longrightarrow> updateTagMap eo (run evs s) = run evs s)
    \<and> (updatingTagMap (run evs s) = None \<longrightarrow>
          emitted (run (map Trigger eos) (updateTagMap eo (run evs s)))
            = emitted (run evs s) @ [\<lparr>ifNotMatch = databaseSha (storage (run evs s))\<rparr>])"
proof -
  have g: "guarded (run evs s)" using assms by (rule guarded_run)
  have "emitted (run (map Trigger eos) (updateTagMap eo (run evs s)))
          = emitted (run evs s) @ [\<lparr>ifNotMatch = databaseSha (storage (run evs s))\<rparr>]"
    if "updatingTagMap (run evs s) = None"
    using that by (simp add: triggers_busy updateTagMap_sets_guard updateTagMap_emitted)
  moreover have "length (suspended (run evs s)) \<le> 1" using g by (rule guarded_length)
  moreover have "updateTagMap eo (run evs s) = run evs s" if "suspended (run evs s) \<noteq> []"
    using guarded_busy [OF g that] by (rule updateTagMap_busy)
  moreover have "updateTagMap eo (run evs s) = run evs s" if "updatingTagMap (run evs s) \<noteq> None"
    using that by (rule updateTagMap_busy)
  ultimately show ?thesis using g by blast
qed

theorem refresh_single_flight_witness:
  "guarded engine \<and> updatingTagMap engine = None
   \<and> length (suspended (run [Trigger EmitPending, Classify 4, Trigger EmitPending,
                               Settle 0 Rejected, Retranslate, Trigger EmitThrows,
                               Trigger EmitPending] engine)) \<le> 1
   \<and> suspended waiting \<noteq> []
   \<and> updateTagMap EmitPending waiting = waiting
   \<and> emitted (run [Trigger EmitPending, Trigger EmitPending] engine) = [\<lparr>ifNotMatch = None\<rparr>]"
proof -
  have g: "guarded engine" and i: "updatingTagMap engine = None"
    and e: "emitted engine = []" "databaseSha (storage engine) = None"
    by (simp_all add: guarded_def engine_def)
  have w: "suspended waiting \<noteq> []" by (simp add: waiting_eq)
  have r: "run [Trigger EmitPending] engine = waiting" by (simp add: waiting_def)
  note T1 = refresh_single_flight [OF g, of "[Trigger EmitPending, Classify 4,
      Trigger EmitPending, Settle 0 Rejected, Retranslate, Trigger EmitThrows,
      Trigger EmitPending]" EmitPending "[]"]
  note T2 = refresh_single_flight [OF g, of "[Trigger EmitPending]" EmitPending "[]",
      unfolded r]
  note T3 = refresh_single_flight [OF g, of "[]" EmitPending "[EmitPending]"]
  have "emitted (run [Trigger EmitPending, Trigger EmitPending] engine) = [\<lparr>ifNotMatch = None\<rparr>]"
    using T3 i e by simp
  with T1 T2 g i w show ?thesis by blast
qed

text \<open>
  C6. When the provider request is rejected or the answer cannot be decoded, the body of
  the refresh ends in its \<^verbatim>\<open>catch\<close> and \<^verbatim>\<open>finally\<close> blocks: the error is logged, the
  timer ended, and the persisted cache, the document, the registry and the current
  dictionary are as before. The synchronous part of \<^verbatim>\<open>updateTagMap\<close> never touches the
  cache or the document either, also when \<^verbatim>\<open>emit\<close> throws. The cache or the document
  change only when the answer carries a map that decodes; then the cache holds that map
  and the answer's fingerprint, and the registry was re-translated with that map.
\<close>

theorem refresh_failure_keeps_cache:
  "(request_or_decoding_fails r \<longrightarrow>
      (\<exists>ex. resume p r s = finally_block (Some p) (catch_block ex s)
            \<and> logger (resume p r s) = logger s @ [LogError ex, TimerEnd])
      \<and> storage (resume p r s) = storage s \<and> document (resume p r s) = document s
      \<and> tags (resume p r s) = tags s \<and> tagMap (resume p r s) = tagMap s)
   \<and> storage (updateTagMap eo s) = storage s \<and> document (updateTagMap eo s) = document s
   \<and> (updatingTagMap s = None \<longrightarrow>
        logger (updateTagMap EmitThrows s) = logger s @ [TimerStart, LogError Rejection, TimerEnd])
   \<and> (storage (resume p r s) \<noteq> storage s \<or> document (resume p r s) \<noteq> document s \<longrightarrow>
        (\<exists>d es tm. r = Resolved (Some d) \<and> data_map d = Some es
                   \<and> build_tagMap es Map.empty = Inr tm))
   \<and> (r = Resolved (Some d) \<and> data_map d = Some es \<and> build_tagMap es Map.empty = Inr tm \<longrightarrow>
        storage (resume p r s) = \<lparr>databaseMap = Some tm, databaseSha = Some (data_sha d)\<rparr>
        \<and> document (resume p r s) = document (translateTags (Some tm) s)
        \<and> tags (resume p r s) = tags (translateTags (Some tm) s)
        \<and> tagMap (resume p r s) = Some tm)"
proof (intro conjI impI)
  assume "request_or_decoding_fails r"
  then obtain ex where ex: "try_block r s = Inl ex" using try_block_Inl [of r s] by blast
  have eq: "resume p r s = finally_block (Some p) (catch_block ex s)"
    by (rule resume_failure [OF ex])
  show "\<exists>ex. resume p r s = finally_block (Some p) (catch_block ex s)
            \<and> logger (resume p r s) = logger s @ [LogError ex, TimerEnd]"
    using eq by (intro exI [of _ ex]) simp
  show "storage (resume p r s) = storage s" "document (resume p r s) = document s"
    "tags (resume p r s) = tags s" "tagMap (resume p r s) = tagMap s"
    by (simp_all add: eq)
next
  show "storage (updateTagMap eo s) = storage s" "document (updateTagMap eo s) = document s"
    by (rule updateTagMap_keeps)+
next
  assume "updatingTagMap s = None"
  then show "logger (updateTagMap EmitThrows s)
               = logger s @ [TimerStart, LogError Rejection, TimerEnd]"
    by (simp add: updateTagMap_def Let_def)
next
  assume ch: "storage (resume p r s) \<noteq> storage s \<or> document (resume p r s) \<noteq> document s"
  show "\<exists>d es tm. r = Resolved (Some d) \<and> data_map d = Some es
                   \<and> build_tagMap es Map.empty = Inr tm"
  proof (cases "try_block r s")
    case (Inl ex)
    then have "resume p r s = finally_block (Some p) (catch_block ex s)" by (rule resume_failure)
    with ch show ?thesis by simp
  next
    case (Inr s1)
    then obtain d where d: "r = Resolved (Some d)"
      by (auto simp: try_block_def split: response.splits option.splits)
    show ?thesis
    proof (cases "data_map d")
      case None
      with ch resume_unchanged [OF d None, of p s] show ?thesis by simp
    next
      case (Some es)
      with Inr d obtain tm where "build_tagMap es Map.empty = Inr tm"
        by (auto simp: try_block_def split: sum.splits)
      with d Some show ?thesis by blast
    qed
  qed
next
  assume a: "r = Resolved (Some d) \<and> data_map d = Some es \<and> build_tagMap es Map.empty = Inr tm"
  then have r: "r = Resolved (Some d)" and m: "data_map d = Some es"
    and b: "build_tagMap es Map.empty = Inr tm" by simp_all
  show "storage (resume p r s) = \<lparr>databaseMap = Some tm, databaseSha = Some (data_sha d)\<rparr>"
    by (rule resume_success(1) [OF r m b])
  show "document (resume p r s) = document (translateTags (Some tm) s)"
    by (rule resume_success(2) [OF r m b])
  show "tags (resume p r s) = tags (translateTags (Some tm) s)"
    by (rule resume_success(3) [OF r m b])
  show "tagMap (resume p r s) = Some tm"
    by (rule resume_success(4) [OF r m b])
qed

theorem refresh_failure_keeps_cache_witness:
  "request_or_decoding_fails Rejected \<and> request_or_decoding_fails broken_map
   \<and> storage (resume 0 Rejected waiting) = storage waiting
   \<and> storage (resume 0 broken_map waiting) = storage waiting
   \<and> document (resume 0 broken_map waiting) = document waiting
   \<and> storage (updateTagMap EmitThrows engine) = storage engine
   \<and> updatingTagMap engine = None
   \<and> logger (updateTagMap EmitThrows engine) = [TimerStart, LogError Rejection, TimerEnd]
   \<and> storage (resume 0 new_map waiting)
       = \<lparr>databaseMap = Some D1, databaseSha = Some ''5f2a''\<rparr>
   \<and> tagMap (resume 0 new_map waiting) = Some D1"
proof -
  have f: "request_or_decoding_fails Rejected" "request_or_decoding_fails broken_map"
    by (simp_all add: request_or_decoding_fails_def broken_map_def)
  have n: "new_map = Resolved (Some \<lparr>data_map = Some [(''female:nakadashi'', Some ''label one'')],
                     data_sha = ''5f2a''\<rparr>)
      \<and> data_map \<lparr>data_map = Some [(''female:nakadashi'', Some ''label one'')],
                     data_sha = ''5f2a''\<rparr> = Some [(''female:nakadashi'', Some ''label one'')]
      \<and> build_tagMap [(''female:nakadashi'', Some ''label one'')] Map.empty = Inr D1"
    by (simp add: new_map_def D1_def set_property_def)
  note T1 = refresh_failure_keeps_cache [of Rejected 0 waiting EmitThrows]
  note T2 = refresh_failure_keeps_cache [of broken_map 0 waiting EmitThrows]
  note T3 = refresh_failure_keeps_cache [of _ _ engine EmitThrows]
  note T4 = refresh_failure_keeps_cache [of new_map 0 waiting EmitThrows
      "\<lparr>data_map = Some [(''female:nakadashi'', Some ''label one'')], data_sha = ''5f2a''\<rparr>"
      "[(''female:nakadashi'', Some ''label one'')]" D1]
  have "storage (resume 0 new_map waiting)
       = \<lparr>databaseMap = Some D1, databaseSha = Some ''5f2a''\<rparr>
     \<and> tagMap (resume 0 new_map waiting) = Some D1"
    using T4 n by simp
  moreover have "updatingTagMap engine = None" "logger engine = []"
    by (simp_all add: engine_def)
  then have "updatingTagMap engine = None
     \<and> logger (updateTagMap EmitThrows engine) = [TimerStart, LogError Rejection, TimerEnd]"
    using T3 by simp
  ultimately show ?thesis using T1 T2 T3 f by blast
qed

section \<open>The pattern rules of the generic translation\<close>

lemma apply_rules_snoc:
  "apply_rules (rs @ [r]) t = replace_rule r (apply_rules rs t)"
  by (induction rs arbitrary: t) simp_all

lemma two_rules_facts:
  "plainReplacements (uiData two_rules) t = None"
  "translateTimestamp (config two_rules) = Some False"
  "regexReplacements (uiData two_rules) = [whole_text ''Once'' ''1 time''] @ [whole_text ''1 time'' ''1 x'']"
  by (simp_all add: two_rules_def engine_def)

text \<open>
  C3, as the code has it. The rules are applied one after the other, each to the text the
  rules before it produced: appending a rule to the list applies it to the output of the
  list. For a text with no entry in the phrase table, with timestamp rewriting off, the
  result of \<^verbatim>\<open>translateUiText\<close> is the text after the last rule, or no translation when
  that equals the input.
\<close>

theorem rules_are_chained:
  "apply_rules (rs @ [r]) t = replace_rule r (apply_rules rs t)
   \<and> (plainReplacements (uiData service) text = None
       \<and> translateTimestamp (config service) = Some False
       \<and> regexReplacements (uiData service) = rs @ [r] \<longrightarrow>
         translateUiText service text
           = (if replace_rule r (apply_rules rs text) \<noteq> text
              then Some (replace_rule r (apply_rules rs text)) else None))"
  by (simp add: apply_rules_snoc translateUiText_def Let_def)

theorem rules_are_chained_witness:
  "plainReplacements (uiData two_rules) ''Once'' = None
   \<and> translateTimestamp (config two_rules) = Some False
   \<and> regexReplacements (uiData two_rules)
       = [whole_text ''Once'' ''1 time''] @ [whole_text ''1 time'' ''1 x'']
   \<and> apply_rules [whole_text ''Once'' ''1 time''] ''Once'' = ''1 time''
   \<and> translateUiText two_rules ''Once'' = Some ''1 x''"
  using rules_are_chained [of "[whole_text ''Once'' ''1 time'']" "whole_text ''1 time'' ''1 x''"
      "''Once''" two_rules "''Once''"]
  by (simp add: two_rules_facts replace_rule_def whole_text_def)

text \<open>
  C3 as it was claimed says that the first matching rule wins and that every rule sees
  the original text. With the rules \<^verbatim>\<open>/^Once$/\<close> to \<^verbatim>\<open>1 time\<close> and \<^verbatim>\<open>/^1 time$/\<close> to
  \<^verbatim>\<open>1 x\<close>, the second rule does not match the input \<^verbatim>\<open>Once\<close>, yet the result is its
  replacement and not the first rule's.
\<close>

theorem first_rule_wins_counterexample:
  "plainReplacements (uiData two_rules) ''Once'' = None
   \<and> regexReplacements (uiData two_rules)
       = [whole_text ''Once'' ''1 time'', whole_text ''1 time'' ''1 x'']
   \<and> whole_text ''Once'' ''1 time'' ''Once'' = Some ''1 time''
   \<and> whole_text ''1 time'' ''1 x'' ''Once'' = None
   \<and> spec_first_rule_wins (regexReplacements (uiData two_rules)) ''Once'' = ''1 time''
   \<and> translateUiText two_rules ''Once'' = Some ''1 x''"
  by (simp add: two_rules_def engine_def translateUiText_def replace_rule_def whole_text_def)

section \<open>The calls the mutation observer makes\<close>

lemma walk_append:
  "walk tn (ns @ ms) s = walk tn ms (walk tn ns s)"
  by (induction ns arbitrary: s) simp_all

lemma walk_documentEnd:
  "(\<And>n s. documentEnd (tn n s) = documentEnd s) \<Longrightarrow> documentEnd (walk tn ns s) = documentEnd s"
  by (induction ns arbitrary: s) simp_all

text \<open>Whatever \<^verbatim>\<open>translateNode\<close> does, as long as it leaves \<^verbatim>\<open>documentEnd\<close> alone: the
  body for an added node is the sequence of its calls on the added node, on the added
  node again, and on the descendants.\<close>

lemma added_calls:
  assumes "\<And>n s. documentEnd (tn n s) = documentEnd s"
  shows "added tn node1 s
           = (if documentEnd s then walk tn (root node1 # root node1 # descendants node1) s
              else tn (root node1) s)"
  using assms by (cases node1) (simp add: added_def)

lemma walk_record:
  "translated (walk record_call ns s) = translated s @ ns"
  "documentEnd (walk record_call ns s) = documentEnd s"
  by (induction ns arbitrary: s) (simp_all add: record_call_def)

lemma added_record:
  "translated (added record_call n s)
     = translated s @ root n # (if documentEnd s then nodeIterator n else [])"
  "documentEnd (added record_call n s) = documentEnd s"
  by (simp_all add: added_def walk_record record_call_def Let_def)

lemma forEach_added_record:
  "translated (forEach_added record_call ns s)
     = translated s
       @ concat (map (\<lambda>n. root n # (if documentEnd s then nodeIterator n else [])) ns)"
  "documentEnd (forEach_added record_call ns s) = documentEnd s"
  by (induction ns arbitrary: s) (simp_all add: added_record)

lemma observer_record:
  "translated (observer record_call ms s)
     = translated s
       @ concat (map (\<lambda>m. concat (map (\<lambda>n. root n # (if documentEnd s then nodeIterator n
                                                          else []))
                                      (addedNodes m))) ms)"
  by (induction ms arbitrary: s) (simp_all add: forEach_added_record)

text \<open>
  C9, on the code. For a batch that adds one node after the document is ready, the
  callback calls \<^verbatim>\<open>translateNode\<close> on the added node, then on the added node again (the
  iterator starts at its root), then on each descendant once in document order: a
  paragraph (node 7) with one text child (node 8) gives the calls 7, 7, 8. Before the
  document is ready the only call is the one on the added node.
\<close>

theorem observer_visits_added_node_twice:
  "translated (observer record_call [\<lparr>addedNodes = [Subtree 7 [Subtree 8 []]]\<rparr>] engine_ready)
     = [7, 7, 8]
   \<and> translated (observer record_call [\<lparr>addedNodes = [n]\<rparr>] s)
       = translated s @ (if documentEnd s then root n # root n # descendants n else [root n])"
  by (cases n) (simp add: added_record engine_ready_def engine_def)

end
